theory Spec2Isabelle
  imports Main
begin

section \<open>Connectivity state tracker (connectivity\_state.cc)\<close>

text \<open>
  The enum \<open>grpc_connectivity_state\<close>, with the five enumerators that
  \<open>ConnectivityStateName\<close> switches over.
\<close>

datatype grpc_connectivity_state =
    GRPC_CHANNEL_IDLE
  | GRPC_CHANNEL_CONNECTING
  | GRPC_CHANNEL_READY
  | GRPC_CHANNEL_TRANSIENT_FAILURE
  | GRPC_CHANNEL_SHUTDOWN

fun ConnectivityStateName :: "grpc_connectivity_state \<Rightarrow> string" where
  "ConnectivityStateName GRPC_CHANNEL_IDLE = ''IDLE''"
| "ConnectivityStateName GRPC_CHANNEL_CONNECTING = ''CONNECTING''"
| "ConnectivityStateName GRPC_CHANNEL_READY = ''READY''"
| "ConnectivityStateName GRPC_CHANNEL_TRANSIENT_FAILURE = ''TRANSIENT_FAILURE''"
| "ConnectivityStateName GRPC_CHANNEL_SHUTDOWN = ''SHUTDOWN''"

text \<open>
  Modelled from the spec: the members of \<open>ConnectivityStateTracker\<close> are declared
  in its header, which is not among the sources at hand. The spec's watcher
  registration is a mapping from watcher identity to the owned watcher object;
  the code uses it as a \<open>std::map\<close> (insertion of the pair of \<open>watcher.get()\<close>
  and the moved \<open>OrphanablePtr\<close>, \<open>erase\<close> by key, \<open>clear\<close>, iteration).
  A watcher is identified by the address of its object, an entry is determined
  by its key, and the model keeps the keys in the map's iteration order
  (ascending, no key twice). A C++ member \<open>x_\<close> is written \<open>m_x\<close> throughout,
  since a name cannot end in an underscore here.

  What the tracker does to a watcher is recorded as a trace: \<open>Notify w s\<close> is the
  call \<open>w->Notify(s)\<close>, \<open>Orphan w\<close> is the release of the owning pointer of \<open>w\<close>
  (the \<open>OrphanablePtr\<close> destructor). \<open>Release_all ws\<close> is the destruction of
  all entries of the registry at once, by \<open>watchers_.clear()\<close> or by the
  destructor of the map: the owning pointer of every watcher in \<open>ws\<close> is
  released, in an order that the source does not fix, so the event carries the
  set of watchers and no order. Trace logging through \<open>gpr_log\<close> is left out.
\<close>

type_synonym watcher = nat

datatype tracker_event =
    Notify watcher grpc_connectivity_state
  | Orphan watcher
  | Release_all "watcher set"

record ConnectivityStateTracker =
  m_state :: grpc_connectivity_state
  m_watchers :: "watcher list"

text \<open>\<open>std::map::insert\<close>: a key already present keeps its entry.\<close>

fun map_insert :: "watcher \<Rightarrow> watcher list \<Rightarrow> watcher list" where
  "map_insert k [] = [k]"
| "map_insert k (x # xs) =
     (if k < x then k # x # xs
      else if k = x then x # xs
      else x # map_insert k xs)"

text \<open>\<open>std::map::erase\<close> by key.\<close>

fun map_erase :: "watcher \<Rightarrow> watcher list \<Rightarrow> watcher list" where
  "map_erase k [] = []"
| "map_erase k (x # xs) = (if k = x then xs else x # map_erase k xs)"

text \<open>
  \<open>AddWatcher(initial_state, watcher)\<close>. The argument owns the watcher; when it
  is not moved into a new map entry (state SHUTDOWN, or \<open>insert\<close> finding the key
  present) its owning pointer is destroyed at the end of the call.
\<close>

definition AddWatcher ::
  "ConnectivityStateTracker \<Rightarrow> grpc_connectivity_state \<Rightarrow> watcher \<Rightarrow>
   ConnectivityStateTracker \<times> tracker_event list" where
  "AddWatcher t initial_state w =
     (let current_state = m_state t;
          catch_up = (if initial_state \<noteq> current_state
                      then [Notify w current_state] else [])
      in if current_state \<noteq> GRPC_CHANNEL_SHUTDOWN
         then (t\<lparr>m_watchers := map_insert w (m_watchers t)\<rparr>,
               catch_up @ (if w \<in> set (m_watchers t) then [Orphan w] else []))
         else (t, catch_up @ [Orphan w]))"

definition RemoveWatcher ::
  "ConnectivityStateTracker \<Rightarrow> watcher \<Rightarrow>
   ConnectivityStateTracker \<times> tracker_event list" where
  "RemoveWatcher t w =
     (t\<lparr>m_watchers := map_erase w (m_watchers t)\<rparr>,
      if w \<in> set (m_watchers t) then [Orphan w] else [])"

text \<open>
  \<open>SetState(state, reason)\<close>: the early return, the store, the loop over the
  registry, and \<open>watchers_.clear()\<close> for SHUTDOWN.
\<close>

definition SetState ::
  "ConnectivityStateTracker \<Rightarrow> grpc_connectivity_state \<Rightarrow> string \<Rightarrow>
   ConnectivityStateTracker \<times> tracker_event list" where
  "SetState t state reason =
     (let current_state = m_state t
      in if state = current_state then (t, [])
         else
           (let t1 = t\<lparr>m_state := state\<rparr>;
                notified = map (\<lambda>w. Notify w state) (m_watchers t1)
            in if state = GRPC_CHANNEL_SHUTDOWN
               then (t1\<lparr>m_watchers := []\<rparr>,
                     notified @ [Release_all (set (m_watchers t1))])
               else (t1, notified)))"

definition state :: "ConnectivityStateTracker \<Rightarrow> grpc_connectivity_state" where
  "state t = m_state t"

text \<open>
  The destructor: nothing to announce in SHUTDOWN, otherwise every watcher is
  notified of SHUTDOWN; the registry member is destroyed afterwards in both cases.
\<close>

definition destroy_tracker :: "ConnectivityStateTracker \<Rightarrow> tracker_event list" where
  "destroy_tracker t =
     (if m_state t = GRPC_CHANNEL_SHUTDOWN then []
      else map (\<lambda>w. Notify w GRPC_CHANNEL_SHUTDOWN) (m_watchers t))
     @ [Release_all (set (m_watchers t))]"

text \<open>The registry invariant of \<open>std::map\<close>: keys strictly ascending.\<close>

definition registry_ok :: "ConnectivityStateTracker \<Rightarrow> bool" where
  "registry_ok t = sorted_wrt (<) (m_watchers t)"

text \<open>How many notifications a trace delivers to one watcher.\<close>

definition notifications_to :: "watcher \<Rightarrow> tracker_event list \<Rightarrow> grpc_connectivity_state list" where
  "notifications_to w evs =
     concat (map (\<lambda>e. case e of
                       Notify v s \<Rightarrow> (if v = w then [s] else [])
                     | Orphan v \<Rightarrow> []
                     | Release_all vs \<Rightarrow> []) evs)"

section \<open>SPIFFE security connectors (spiffe\_security\_connector.cc)\<close>

subsection \<open>Enumerations and plain data\<close>

text \<open>
  Modelled from the spec: the enums are declared in headers that are not among
  the sources at hand. \<open>grpc_status_code\<close> has the enumerators this file names
  (the spec's OK, CANCELLED, PRECONDITION, UNIMPLEMENTED and INTERNAL) and one
  constructor for every other enumerator (by its number), which the file treats
  alike; the reload status is the spec's UNCHANGED, NEW or FAIL.
\<close>

datatype grpc_status_code =
    GRPC_STATUS_OK
  | GRPC_STATUS_CANCELLED
  | GRPC_STATUS_FAILED_PRECONDITION
  | GRPC_STATUS_UNIMPLEMENTED
  | GRPC_STATUS_INTERNAL
  | GRPC_STATUS_other int

datatype grpc_ssl_certificate_config_reload_status =
    GRPC_SSL_CERTIFICATE_CONFIG_RELOAD_UNCHANGED
  | GRPC_SSL_CERTIFICATE_CONFIG_RELOAD_NEW
  | GRPC_SSL_CERTIFICATE_CONFIG_RELOAD_FAIL

datatype grpc_security_status = GRPC_SECURITY_OK | GRPC_SECURITY_ERROR

text \<open>
  A \<open>grpc_error*\<close>: \<open>GRPC_ERROR_NONE\<close>, or an error created from a description
  string (\<open>GRPC_ERROR_CREATE_FROM_STATIC_STRING\<close>, \<open>..._COPIED_STRING\<close>).
\<close>

datatype grpc_error = GRPC_ERROR_NONE | GRPC_ERROR string

text \<open>
  Modelled from the spec: the key-material store (class
  \<open>grpc_tls_key_materials_config\<close>, declared outside the sources at hand) holds
  a root-certificate bundle, possibly absent, and an ordered sequence of
  (private key, certificate chain) pairs, both fields of a pair present; it is
  created empty and replaced wholesale by \<open>set_key_materials\<close>. The two
  assertions of \<open>ConvertToTsiPemKeyCertPair\<close> on a pair's fields hold by typing.
\<close>

record PemKeyCertPair =
  private_key :: string
  cert_chain :: string

record grpc_tls_key_materials_config =
  pem_key_cert_pair_list :: "PemKeyCertPair list"
  pem_root_certs :: "string option"

definition grpc_tls_key_materials_config_create :: grpc_tls_key_materials_config where
  "grpc_tls_key_materials_config_create =
     \<lparr>pem_key_cert_pair_list = [], pem_root_certs = None\<rparr>"

definition set_key_materials ::
  "string option \<Rightarrow> PemKeyCertPair list \<Rightarrow> grpc_tls_key_materials_config \<Rightarrow>
   grpc_tls_key_materials_config" where
  "set_key_materials roots pairs cfg =
     cfg\<lparr>pem_key_cert_pair_list := pairs, pem_root_certs := roots\<rparr>"

record tsi_ssl_pem_key_cert_pair =
  tsi_private_key :: string
  tsi_cert_chain :: string

text \<open>The result \<open>[]\<close> stands for the null pointer returned for an empty list.\<close>

definition ConvertToTsiPemKeyCertPair ::
  "PemKeyCertPair list \<Rightarrow> tsi_ssl_pem_key_cert_pair list" where
  "ConvertToTsiPemKeyCertPair cert_pair_list =
     map (\<lambda>p. \<lparr>tsi_private_key = private_key p, tsi_cert_chain = cert_chain p\<rparr>)
       cert_pair_list"

text \<open>
  Modelled from the spec: the request handed to the credential-reload capability
  (struct \<open>grpc_tls_credential_reload_arg\<close>, declared outside the sources at
  hand) carries the material handle and, on completion, status, error details,
  and an optional destroy-context hook with its context. \<open>grpc_core::New\<close>
  value-initialises it: status 0 (UNCHANGED), every pointer null. The field
  \<open>key_materials_config\<close> points at the connector's store, which the capability may
  change through it; the model carries the store's contents in the field.
  \<open>arg_destroy_context\<close> is the hook's address, \<open>None\<close> for null.
\<close>

record grpc_tls_credential_reload_arg =
  arg_key_materials_config :: grpc_tls_key_materials_config
  arg_status :: grpc_ssl_certificate_config_reload_status
  arg_error_details :: "string option"
  arg_context :: nat
  arg_destroy_context :: "nat option"

definition New_credential_reload_arg ::
  "grpc_tls_key_materials_config \<Rightarrow> grpc_tls_credential_reload_arg" where
  "New_credential_reload_arg cfg =
     \<lparr>arg_key_materials_config = cfg,
      arg_status = GRPC_SSL_CERTIFICATE_CONFIG_RELOAD_UNCHANGED,
      arg_error_details = None,
      arg_context = 0,
      arg_destroy_context = None\<rparr>"

text \<open>
  Modelled from the spec: the request of the server-authorization check (struct
  \<open>grpc_tls_server_authorization_check_arg\<close>, declared outside the sources at
  hand) carries peer certificate, target name, status, success and error
  details. \<open>success\<close> is tested as a C \<open>int\<close>. The callback fields are fixed by
  \<open>ServerAuthorizationCheckArgCreate\<close> (\<open>cb = ServerAuthorizationCheckDone\<close>,
  \<open>cb_user_data\<close> = the connector) and are not carried.
\<close>

record grpc_tls_server_authorization_check_arg =
  check_status :: grpc_status_code
  success :: int
  error_details :: "string option"
  peer_cert :: "string option"
  target_name :: "string option"

definition ServerAuthorizationCheckArgCreate :: grpc_tls_server_authorization_check_arg where
  "ServerAuthorizationCheckArgCreate =
     \<lparr>check_status = GRPC_STATUS_OK, success = 0, error_details = None,
      peer_cert = None, target_name = None\<rparr>"

text \<open>
  Modelled from the spec: the credentials options (declared outside the sources
  at hand) expose optional key material, an optional reload capability and an
  optional server-authorization-check capability. A configured capability is its
  \<open>Schedule\<close> function: it receives the request and returns its \<open>int\<close> result
  together with the request as the capability left it (nonzero: completion will
  be asynchronous).
\<close>

record grpc_tls_credentials_options =
  key_materials_config :: "grpc_tls_key_materials_config option"
  credential_reload_config ::
    "(grpc_tls_credential_reload_arg \<Rightarrow> int \<times> grpc_tls_credential_reload_arg) option"
  server_authorization_check_config ::
    "(grpc_tls_server_authorization_check_arg \<Rightarrow>
        int \<times> grpc_tls_server_authorization_check_arg) option"
  cert_request_type :: nat

type_synonym handshaker_factory = nat
type_synonym grpc_closure = nat
type_synonym tsi_ssl_session_cache = nat
type_synonym grpc_auth_context = "(string \<times> string) list"

record tsi_peer_property =
  property_name :: string
  property_value :: string

type_synonym tsi_peer = "tsi_peer_property list"

text \<open>
  Modelled from the spec: the name of the peer property holding the PEM
  certificate (\<open>TSI_X509_PEM_CERT_PROPERTY\<close>, declared in a header that is not
  part of the sources at hand). No property below depends on its value.
\<close>

definition TSI_X509_PEM_CERT_PROPERTY :: string where
  "TSI_X509_PEM_CERT_PROPERTY = ''x509_pem_cert''"

text \<open>
  Modelled from the spec: \<open>tsi_peer_get_property_by_name\<close> (transport security
  library, not part of the sources at hand) extracts the peer's property of the
  given name, null when the peer has none.
\<close>

definition tsi_peer_get_property_by_name ::
  "tsi_peer \<Rightarrow> string \<Rightarrow> tsi_peer_property option" where
  "tsi_peer_get_property_by_name peer name = find (\<lambda>p. property_name p = name) peer"

text \<open>
  The collaborators called by the connectors and defined outside this file are
  parameters: the ALPN check, the derivation of the auth context, and the two
  factory constructors, each returning its status together with the value it
  leaves in the connector's factory slot.
\<close>

record tsi_env =
  grpc_ssl_check_alpn :: "tsi_peer \<Rightarrow> grpc_error"
  grpc_ssl_peer_to_auth_context :: "tsi_peer \<Rightarrow> grpc_auth_context"
  grpc_ssl_tsi_client_handshaker_factory_init ::
    "tsi_ssl_pem_key_cert_pair list \<Rightarrow> string option \<Rightarrow> tsi_ssl_session_cache option \<Rightarrow>
     grpc_security_status \<times> handshaker_factory option"
  grpc_ssl_tsi_server_handshaker_factory_init ::
    "tsi_ssl_pem_key_cert_pair list \<Rightarrow> nat \<Rightarrow> string option \<Rightarrow> nat \<Rightarrow>
     grpc_security_status \<times> handshaker_factory option"

text \<open>
  The calls a connector makes on resources, in order. Logging is left out.
\<close>

datatype connector_event =
    Reload_schedule
  | Free_error_details "string option"
  | Destroy_context nat nat
  | Delete_reload_arg
  | Factory_unref handshaker_factory
  | Factory_init "tsi_ssl_pem_key_cert_pair list" "string option"
  | Pairs_destroy nat
  | Authorization_schedule grpc_tls_server_authorization_check_arg
  | ExecCtx_Run "grpc_closure option" grpc_error
  | Peer_destruct

text \<open>
  A call either returns, or a \<open>GPR_ASSERT\<close> fails and aborts the process; both
  carry the calls made up to that point.
\<close>

datatype 'a outcome =
    Assert_failed string "connector_event list"
  | Returned 'a "connector_event list"

fun trace_of :: "'a outcome \<Rightarrow> connector_event list" where
  "trace_of (Assert_failed msg evs) = evs"
| "trace_of (Returned x evs) = evs"

fun after_trace :: "connector_event list \<Rightarrow> 'a outcome \<Rightarrow> 'a outcome" where
  "after_trace pre (Assert_failed msg evs) = Assert_failed msg (pre @ evs)"
| "after_trace pre (Returned x evs) = Returned x (pre @ evs)"

fun is_Factory_init :: "connector_event \<Rightarrow> bool" where
  "is_Factory_init (Factory_init pairs roots) = True"
| "is_Factory_init e = False"

fun is_Factory_unref :: "connector_event \<Rightarrow> bool" where
  "is_Factory_unref (Factory_unref f) = True"
| "is_Factory_unref e = False"

fun is_ExecCtx_Run :: "connector_event \<Rightarrow> bool" where
  "is_ExecCtx_Run (ExecCtx_Run cb err) = True"
| "is_ExecCtx_Run e = False"

fun is_Authorization_schedule :: "connector_event \<Rightarrow> bool" where
  "is_Authorization_schedule (Authorization_schedule a) = True"
| "is_Authorization_schedule e = False"

definition rebuilds :: "connector_event list \<Rightarrow> nat" where
  "rebuilds evs = length (filter is_Factory_init evs)"

definition releases :: "connector_event list \<Rightarrow> nat" where
  "releases evs = length (filter is_Factory_unref evs)"

subsection \<open>TlsFetchKeyMaterials\<close>

text \<open>
  The out-parameter \<open>reload_status\<close> is passed in and returned. Both call sites
  pass the address of a local and the connector's own store, so the two null
  assertions of the function hold by typing.
\<close>

record fetch_result =
  fetch_status :: grpc_status_code
  fetch_store :: grpc_tls_key_materials_config
  fetch_reload_status :: grpc_ssl_certificate_config_reload_status
  fetch_trace :: "connector_event list"

definition TlsFetchKeyMaterials ::
  "grpc_tls_key_materials_config \<Rightarrow> grpc_tls_credentials_options \<Rightarrow>
   grpc_ssl_certificate_config_reload_status \<Rightarrow> fetch_result" where
  "TlsFetchKeyMaterials cfg options reload_status =
     (let is_key_materials_empty = (pem_key_cert_pair_list cfg = [])
      in if credential_reload_config options = None \<and> is_key_materials_empty
         then \<lparr>fetch_status = GRPC_STATUS_FAILED_PRECONDITION, fetch_store = cfg,
               fetch_reload_status = reload_status, fetch_trace = []\<rparr>
         else
           (case credential_reload_config options of
              None \<Rightarrow>
                \<lparr>fetch_status = GRPC_STATUS_OK, fetch_store = cfg,
                 fetch_reload_status = reload_status, fetch_trace = []\<rparr>
            | Some Schedule \<Rightarrow>
                (let (result, arg) = Schedule (New_credential_reload_arg cfg);
                     status =
                       (if result \<noteq> 0
                        then (if is_key_materials_empty
                              then GRPC_STATUS_UNIMPLEMENTED else GRPC_STATUS_OK)
                        else if arg_status arg = GRPC_SSL_CERTIFICATE_CONFIG_RELOAD_UNCHANGED
                        then GRPC_STATUS_OK
                        else if arg_status arg = GRPC_SSL_CERTIFICATE_CONFIG_RELOAD_FAIL
                        then (if is_key_materials_empty
                              then GRPC_STATUS_INTERNAL else GRPC_STATUS_OK)
                        else GRPC_STATUS_OK)
                 in \<lparr>fetch_status = status,
                     fetch_store = arg_key_materials_config arg,
                     fetch_reload_status =
                       (if result \<noteq> 0 then reload_status else arg_status arg),
                     fetch_trace =
                       [Reload_schedule, Free_error_details (arg_error_details arg)]
                       @ (case arg_destroy_context arg of
                            None \<Rightarrow> []
                          | Some hook \<Rightarrow> [Destroy_context hook (arg_context arg)])
                       @ [Delete_reload_arg]\<rparr>)))"

subsection \<open>SpiffeChannelSecurityConnector\<close>

text \<open>
  Modelled from the spec: the connector classes are declared in a header that is
  not among the sources at hand; the records hold the members this file uses.
  A connector owns its store and at most one factory, and is created with an
  empty store and no factory. \<open>channel_creds_options\<close> is
  \<open>channel_creds()->options()\<close>. The per-connector mutex, held throughout
  \<open>InitializeHandshakerFactory\<close> and \<open>RefreshHandshakerFactory\<close>, makes each of
  them one sequential step.
\<close>

record SpiffeChannelSecurityConnector =
  channel_creds_options :: grpc_tls_credentials_options
  m_target_name :: string
  m_overridden_target_name :: "string option"
  m_key_materials_config :: grpc_tls_key_materials_config
  m_client_handshaker_factory :: "handshaker_factory option"
  m_check_arg :: grpc_tls_server_authorization_check_arg
  m_on_peer_checked :: "grpc_closure option"

text \<open>
  The constructor. \<open>host\<close> is the host part of the target name, which the
  constructor obtains from \<open>SplitHostPort\<close>.
\<close>

definition new_SpiffeChannelSecurityConnector ::
  "grpc_tls_credentials_options \<Rightarrow> string \<Rightarrow> string option \<Rightarrow>
   SpiffeChannelSecurityConnector" where
  "new_SpiffeChannelSecurityConnector options host overridden_target_name =
     \<lparr>channel_creds_options = options,
      m_target_name = host,
      m_overridden_target_name = overridden_target_name,
      m_key_materials_config = grpc_tls_key_materials_config_create,
      m_client_handshaker_factory = None,
      m_check_arg = ServerAuthorizationCheckArgCreate,
      m_on_peer_checked = None\<rparr>"

text \<open>
  \<open>printf\<close>'s \<open>%s\<close>: the string, and for a null pointer the text that the C
  library of the platform prints.
\<close>

definition format_s :: "string option \<Rightarrow> string" where
  "format_s s = (case s of None \<Rightarrow> ''(null)'' | Some str \<Rightarrow> str)"

definition ProcessServerAuthorizationCheckResult ::
  "grpc_tls_server_authorization_check_arg \<Rightarrow> grpc_error" where
  "ProcessServerAuthorizationCheckResult arg =
     (if check_status arg = GRPC_STATUS_CANCELLED
      then GRPC_ERROR
             (''Server authorization check is cancelled by the caller with error: ''
              @ format_s (error_details arg))
      else if check_status arg = GRPC_STATUS_OK
      then (if success arg = 0
            then GRPC_ERROR
                   (''Server authorization check failed with error: ''
                    @ format_s (error_details arg))
            else GRPC_ERROR_NONE)
      else GRPC_ERROR
             (''Server authorization check did not finish correctly with error: ''
              @ format_s (error_details arg)))"

text \<open>
  The asynchronous completion callback; the connector is the request's
  \<open>cb_user_data\<close>.
\<close>

definition ServerAuthorizationCheckDone ::
  "SpiffeChannelSecurityConnector \<Rightarrow> grpc_tls_server_authorization_check_arg \<Rightarrow>
   connector_event list" where
  "ServerAuthorizationCheckDone connector arg =
     (let error = ProcessServerAuthorizationCheckResult arg
      in [ExecCtx_Run (m_on_peer_checked connector) error])"

text \<open>
  \<open>gpr_strdup\<close> of a buffer that ends in a NUL byte copies up to its first NUL.
\<close>

definition c_str :: "string \<Rightarrow> string" where
  "c_str bytes = takeWhile (\<lambda>ch. ch \<noteq> CHR 0x00) bytes"

record check_peer_result =
  connector_after :: SpiffeChannelSecurityConnector
  auth_context_out :: "grpc_auth_context option"
  check_peer_trace :: "connector_event list"

definition check_peer ::
  "tsi_env \<Rightarrow> SpiffeChannelSecurityConnector \<Rightarrow> tsi_peer \<Rightarrow> grpc_closure \<Rightarrow>
   check_peer_result" where
  "check_peer env c peer on_peer_checked =
     (let tname = (case m_overridden_target_name c of
                     Some n \<Rightarrow> n | None \<Rightarrow> m_target_name c)
      in case grpc_ssl_check_alpn env peer of
           GRPC_ERROR msg \<Rightarrow>
             \<lparr>connector_after = c, auth_context_out = None,
              check_peer_trace =
                [ExecCtx_Run (Some on_peer_checked) (GRPC_ERROR msg), Peer_destruct]\<rparr>
         | GRPC_ERROR_NONE \<Rightarrow>
             (let auth_context = grpc_ssl_peer_to_auth_context env peer
              in case server_authorization_check_config (channel_creds_options c) of
                   None \<Rightarrow>
                     \<lparr>connector_after = c, auth_context_out = Some auth_context,
                      check_peer_trace =
                        [ExecCtx_Run (Some on_peer_checked) GRPC_ERROR_NONE, Peer_destruct]\<rparr>
                 | Some Schedule \<Rightarrow>
                     (case tsi_peer_get_property_by_name peer TSI_X509_PEM_CERT_PROPERTY of
                        None \<Rightarrow>
                          \<lparr>connector_after = c, auth_context_out = Some auth_context,
                           check_peer_trace =
                             [ExecCtx_Run (Some on_peer_checked)
                                (GRPC_ERROR ''Cannot check peer: missing pem cert property.''),
                              Peer_destruct]\<rparr>
                      | Some p \<Rightarrow>
                          (let peer_pem = property_value p;
                               arg1 = (m_check_arg c)
                                 \<lparr>peer_cert :=
                                    (if peer_cert (m_check_arg c) = None
                                     then Some (c_str peer_pem)
                                     else peer_cert (m_check_arg c)),
                                  target_name :=
                                    (if target_name (m_check_arg c) = None
                                     then Some tname
                                     else target_name (m_check_arg c))\<rparr>;
                               (callback_status, arg2) = Schedule arg1;
                               c2 = c\<lparr>m_check_arg := arg2,
                                      m_on_peer_checked := Some on_peer_checked\<rparr>
                           in if callback_status \<noteq> 0
                              then \<lparr>connector_after = c2,
                                    auth_context_out = Some auth_context,
                                    check_peer_trace =
                                      [Authorization_schedule arg1, Peer_destruct]\<rparr>
                              else \<lparr>connector_after = c2,
                                    auth_context_out = Some auth_context,
                                    check_peer_trace =
                                      [Authorization_schedule arg1,
                                       ExecCtx_Run (Some on_peer_checked)
                                         (ProcessServerAuthorizationCheckResult arg2),
                                       Peer_destruct]\<rparr>))))"

definition Channel_ReplaceHandshakerFactory ::
  "tsi_env \<Rightarrow> SpiffeChannelSecurityConnector \<Rightarrow> tsi_ssl_session_cache option \<Rightarrow>
   (grpc_security_status \<times> SpiffeChannelSecurityConnector) outcome" where
  "Channel_ReplaceHandshakerFactory env c ssl_session_cache =
     (let unref = (case m_client_handshaker_factory c of
                     None \<Rightarrow> [] | Some f \<Rightarrow> [Factory_unref f])
      in if pem_key_cert_pair_list (m_key_materials_config c) = []
         then Assert_failed ''!key_materials_config_->pem_key_cert_pair_list().empty()'' unref
         else
           (let pem_key_cert_pair =
                  ConvertToTsiPemKeyCertPair
                    (pem_key_cert_pair_list (m_key_materials_config c));
                (status, factory) =
                  grpc_ssl_tsi_client_handshaker_factory_init env pem_key_cert_pair
                    (pem_root_certs (m_key_materials_config c)) ssl_session_cache
            in Returned (status, c\<lparr>m_client_handshaker_factory := factory\<rparr>)
                 (unref
                  @ [Factory_init pem_key_cert_pair
                       (pem_root_certs (m_key_materials_config c)),
                     Pairs_destroy 1])))"

definition Channel_InitializeHandshakerFactory ::
  "tsi_env \<Rightarrow> SpiffeChannelSecurityConnector \<Rightarrow> tsi_ssl_session_cache option \<Rightarrow>
   (grpc_security_status \<times> SpiffeChannelSecurityConnector) outcome" where
  "Channel_InitializeHandshakerFactory env c ssl_session_cache =
     (let c0 = (case key_materials_config (channel_creds_options c) of
                  None \<Rightarrow> c
                | Some kmc \<Rightarrow>
                    c\<lparr>m_key_materials_config :=
                        set_key_materials (pem_root_certs kmc) (pem_key_cert_pair_list kmc)
                          (m_key_materials_config c)\<rparr>);
          r = TlsFetchKeyMaterials (m_key_materials_config c0) (channel_creds_options c0)
                GRPC_SSL_CERTIFICATE_CONFIG_RELOAD_UNCHANGED;
          c1 = c0\<lparr>m_key_materials_config := fetch_store r\<rparr>
      in if fetch_status r \<noteq> GRPC_STATUS_OK
         then Returned (GRPC_SECURITY_ERROR, c1) (fetch_trace r)
         else after_trace (fetch_trace r)
                (Channel_ReplaceHandshakerFactory env c1 ssl_session_cache))"

definition Channel_RefreshHandshakerFactory ::
  "tsi_env \<Rightarrow> SpiffeChannelSecurityConnector \<Rightarrow>
   (grpc_security_status \<times> SpiffeChannelSecurityConnector) outcome" where
  "Channel_RefreshHandshakerFactory env c =
     (let r = TlsFetchKeyMaterials (m_key_materials_config c) (channel_creds_options c)
                GRPC_SSL_CERTIFICATE_CONFIG_RELOAD_UNCHANGED;
          c1 = c\<lparr>m_key_materials_config := fetch_store r\<rparr>
      in if fetch_status r \<noteq> GRPC_STATUS_OK
         then Returned (GRPC_SECURITY_ERROR, c1) (fetch_trace r)
         else if fetch_reload_status r \<noteq> GRPC_SSL_CERTIFICATE_CONFIG_RELOAD_NEW
         then Returned (GRPC_SECURITY_OK, c1) (fetch_trace r)
         else after_trace (fetch_trace r)
                (Channel_ReplaceHandshakerFactory env c1 None))"

text \<open>
  \<open>CreateSpiffeChannelSecurityConnector\<close> for non-null credentials and target
  name: construction, then initialisation; a null result when that fails.
\<close>

definition CreateSpiffeChannelSecurityConnector ::
  "tsi_env \<Rightarrow> grpc_tls_credentials_options \<Rightarrow> string \<Rightarrow> string option \<Rightarrow>
   tsi_ssl_session_cache option \<Rightarrow> SpiffeChannelSecurityConnector option outcome" where
  "CreateSpiffeChannelSecurityConnector env options host overridden_target_name
       ssl_session_cache =
     (case Channel_InitializeHandshakerFactory env
             (new_SpiffeChannelSecurityConnector options host overridden_target_name)
             ssl_session_cache of
        Assert_failed msg evs \<Rightarrow> Assert_failed msg evs
      | Returned (status, c) evs \<Rightarrow>
          Returned (if status \<noteq> GRPC_SECURITY_OK then None else Some c) evs)"

subsection \<open>SpiffeServerSecurityConnector\<close>

record SpiffeServerSecurityConnector =
  server_creds_options :: grpc_tls_credentials_options
  m_server_key_materials_config :: grpc_tls_key_materials_config
  m_server_handshaker_factory :: "handshaker_factory option"

definition new_SpiffeServerSecurityConnector ::
  "grpc_tls_credentials_options \<Rightarrow> SpiffeServerSecurityConnector" where
  "new_SpiffeServerSecurityConnector options =
     \<lparr>server_creds_options = options,
      m_server_key_materials_config = grpc_tls_key_materials_config_create,
      m_server_handshaker_factory = None\<rparr>"

definition Server_ReplaceHandshakerFactory ::
  "tsi_env \<Rightarrow> SpiffeServerSecurityConnector \<Rightarrow>
   (grpc_security_status \<times> SpiffeServerSecurityConnector) outcome" where
  "Server_ReplaceHandshakerFactory env c =
     (let unref = (case m_server_handshaker_factory c of
                     None \<Rightarrow> [] | Some f \<Rightarrow> [Factory_unref f])
      in if pem_key_cert_pair_list (m_server_key_materials_config c) = []
         then Assert_failed ''!key_materials_config_->pem_key_cert_pair_list().empty()'' unref
         else
           (let pem_key_cert_pairs =
                  ConvertToTsiPemKeyCertPair
                    (pem_key_cert_pair_list (m_server_key_materials_config c));
                num_key_cert_pairs =
                  length (pem_key_cert_pair_list (m_server_key_materials_config c));
                (status, factory) =
                  grpc_ssl_tsi_server_handshaker_factory_init env pem_key_cert_pairs
                    num_key_cert_pairs (pem_root_certs (m_server_key_materials_config c))
                    (cert_request_type (server_creds_options c))
            in Returned (status, c\<lparr>m_server_handshaker_factory := factory\<rparr>)
                 (unref
                  @ [Factory_init pem_key_cert_pairs
                       (pem_root_certs (m_server_key_materials_config c)),
                     Pairs_destroy num_key_cert_pairs])))"

definition Server_InitializeHandshakerFactory ::
  "tsi_env \<Rightarrow> SpiffeServerSecurityConnector \<Rightarrow>
   (grpc_security_status \<times> SpiffeServerSecurityConnector) outcome" where
  "Server_InitializeHandshakerFactory env c =
     (let c0 = (case key_materials_config (server_creds_options c) of
                  None \<Rightarrow> c
                | Some kmc \<Rightarrow>
                    c\<lparr>m_server_key_materials_config :=
                        set_key_materials (pem_root_certs kmc) (pem_key_cert_pair_list kmc)
                          (m_server_key_materials_config c)\<rparr>);
          r = TlsFetchKeyMaterials (m_server_key_materials_config c0)
                (server_creds_options c0) GRPC_SSL_CERTIFICATE_CONFIG_RELOAD_UNCHANGED;
          c1 = c0\<lparr>m_server_key_materials_config := fetch_store r\<rparr>
      in if fetch_status r \<noteq> GRPC_STATUS_OK
         then Returned (GRPC_SECURITY_ERROR, c1) (fetch_trace r)
         else after_trace (fetch_trace r) (Server_ReplaceHandshakerFactory env c1))"

definition Server_RefreshHandshakerFactory ::
  "tsi_env \<Rightarrow> SpiffeServerSecurityConnector \<Rightarrow>
   (grpc_security_status \<times> SpiffeServerSecurityConnector) outcome" where
  "Server_RefreshHandshakerFactory env c =
     (let r = TlsFetchKeyMaterials (m_server_key_materials_config c)
                (server_creds_options c) GRPC_SSL_CERTIFICATE_CONFIG_RELOAD_UNCHANGED;
          c1 = c\<lparr>m_server_key_materials_config := fetch_store r\<rparr>
      in if fetch_status r \<noteq> GRPC_STATUS_OK
         then Returned (GRPC_SECURITY_ERROR, c1) (fetch_trace r)
         else if fetch_reload_status r \<noteq> GRPC_SSL_CERTIFICATE_CONFIG_RELOAD_NEW
         then Returned (GRPC_SECURITY_OK, c1) (fetch_trace r)
         else after_trace (fetch_trace r) (Server_ReplaceHandshakerFactory env c1))"

subsection \<open>Concrete collaborators and inputs\<close>

text \<open>
  Instances of the pluggable parts, for running the definitions above on concrete
  inputs: collaborators that accept a peer with a negotiated protocol and build
  factory 1 (client) or 2 (server), reload capabilities that answer synchronously
  (result 0) or announce an asynchronous completion (result 1), and
  authorization-check capabilities.
\<close>

definition example_env :: tsi_env where
  "example_env =
     \<lparr>grpc_ssl_check_alpn =
        (\<lambda>peer. if find (\<lambda>p. property_name p = ''ssl_alpn_protocol'') peer = None
                 then GRPC_ERROR ''Cannot check peer: missing selected ALPN property.''
                 else GRPC_ERROR_NONE),
      grpc_ssl_peer_to_auth_context =
        (\<lambda>peer. map (\<lambda>p. (property_name p, property_value p)) peer),
      grpc_ssl_tsi_client_handshaker_factory_init =
        (\<lambda>pairs roots cache. (GRPC_SECURITY_OK, Some 1)),
      grpc_ssl_tsi_server_handshaker_factory_init =
        (\<lambda>pairs n roots request_type. (GRPC_SECURITY_OK, Some 2))\<rparr>"

definition example_store :: grpc_tls_key_materials_config where
  "example_store =
     \<lparr>pem_key_cert_pair_list = [\<lparr>private_key = ''key'', cert_chain = ''chain''\<rparr>],
      pem_root_certs = Some ''roots''\<rparr>"

definition reload_sync_unchanged ::
  "grpc_tls_credential_reload_arg \<Rightarrow> int \<times> grpc_tls_credential_reload_arg" where
  "reload_sync_unchanged arg =
     (0, arg\<lparr>arg_status := GRPC_SSL_CERTIFICATE_CONFIG_RELOAD_UNCHANGED\<rparr>)"

definition reload_sync_new ::
  "PemKeyCertPair list \<Rightarrow> grpc_tls_credential_reload_arg \<Rightarrow>
   int \<times> grpc_tls_credential_reload_arg" where
  "reload_sync_new pairs arg =
     (0, arg\<lparr>arg_key_materials_config :=
                set_key_materials (Some ''new roots'') pairs (arg_key_materials_config arg),
              arg_status := GRPC_SSL_CERTIFICATE_CONFIG_RELOAD_NEW\<rparr>)"

definition reload_sync_fail ::
  "grpc_tls_credential_reload_arg \<Rightarrow> int \<times> grpc_tls_credential_reload_arg" where
  "reload_sync_fail arg =
     (0, arg\<lparr>arg_status := GRPC_SSL_CERTIFICATE_CONFIG_RELOAD_FAIL,
              arg_error_details := Some ''cannot read certificate'',
              arg_context := 9,
              arg_destroy_context := Some 5\<rparr>)"

definition reload_async ::
  "grpc_tls_credential_reload_arg \<Rightarrow> int \<times> grpc_tls_credential_reload_arg" where
  "reload_async arg = (1, arg)"

definition authorization_sync_reject ::
  "grpc_tls_server_authorization_check_arg \<Rightarrow>
   int \<times> grpc_tls_server_authorization_check_arg" where
  "authorization_sync_reject arg =
     (0, arg\<lparr>check_status := GRPC_STATUS_OK, success := 0,
              error_details := Some ''denied''\<rparr>)"

definition example_options :: grpc_tls_credentials_options where
  "example_options =
     \<lparr>key_materials_config = None,
      credential_reload_config = None,
      server_authorization_check_config = None,
      cert_request_type = 0\<rparr>"

definition example_channel_connector :: SpiffeChannelSecurityConnector where
  "example_channel_connector =
     (new_SpiffeChannelSecurityConnector example_options ''server.example'' None)
       \<lparr>m_key_materials_config := example_store,
        m_client_handshaker_factory := Some 7\<rparr>"

definition example_server_connector :: SpiffeServerSecurityConnector where
  "example_server_connector =
     (new_SpiffeServerSecurityConnector example_options)
       \<lparr>m_server_key_materials_config := example_store,
        m_server_handshaker_factory := Some 8\<rparr>"

definition example_peer :: tsi_peer where
  "example_peer = [\<lparr>property_name = ''ssl_alpn_protocol'', property_value = ''h2''\<rparr>]"

definition example_peer_with_cert :: tsi_peer where
  "example_peer_with_cert =
     example_peer @ [\<lparr>property_name = TSI_X509_PEM_CERT_PROPERTY, property_value = ''PEM''\<rparr>]"

definition example_checking_connector :: SpiffeChannelSecurityConnector where
  "example_checking_connector =
     example_channel_connector
       \<lparr>channel_creds_options :=
          example_options\<lparr>server_authorization_check_config :=
                            Some authorization_sync_reject\<rparr>\<rparr>"

text \<open>
  Live connectors whose reload capability, asked to reload, replaces the
  material by an empty cert-pair list, or by a new pair, and reports NEW; and
  connectors whose capability announces an asynchronous completion.
\<close>

definition example_connector_reload_empties :: SpiffeChannelSecurityConnector where
  "example_connector_reload_empties =
     example_channel_connector
       \<lparr>channel_creds_options :=
          example_options\<lparr>credential_reload_config := Some (reload_sync_new [])\<rparr>\<rparr>"

definition example_connector_reload_new :: SpiffeChannelSecurityConnector where
  "example_connector_reload_new =
     example_channel_connector
       \<lparr>channel_creds_options :=
          example_options
            \<lparr>credential_reload_config :=
               Some (reload_sync_new [\<lparr>private_key = ''key2'', cert_chain = ''chain2''\<rparr>])\<rparr>\<rparr>"

definition example_connector_reload_async :: SpiffeChannelSecurityConnector where
  "example_connector_reload_async =
     example_channel_connector
       \<lparr>channel_creds_options :=
          example_options\<lparr>credential_reload_config := Some reload_async\<rparr>\<rparr>"

definition example_server_reload_empties :: SpiffeServerSecurityConnector where
  "example_server_reload_empties =
     example_server_connector
       \<lparr>server_creds_options :=
          example_options\<lparr>credential_reload_config := Some (reload_sync_new [])\<rparr>\<rparr>"

definition example_server_reload_async :: SpiffeServerSecurityConnector where
  "example_server_reload_async =
     example_server_connector
       \<lparr>server_creds_options :=
          example_options\<lparr>credential_reload_config := Some reload_async\<rparr>\<rparr>"

text \<open>
  Credentials options with no key material and a reload capability that answers
  synchronously with UNCHANGED.
\<close>

definition example_options_reload_only :: grpc_tls_credentials_options where
  "example_options_reload_only =
     example_options\<lparr>credential_reload_config := Some reload_sync_unchanged\<rparr>"

section \<open>Properties of the tracker\<close>

lemma set_map_insert: "set (map_insert k xs) = insert k (set xs)"
  by (induction xs) auto

lemma sorted_map_insert: "sorted_wrt (<) xs \<Longrightarrow> sorted_wrt (<) (map_insert k xs)"
  by (induction xs) (auto simp: set_map_insert)

lemma notifications_to_map_Notify:
  "notifications_to w (map (\<lambda>v. Notify v s) ws) = replicate (count_list ws w) s"
  by (induction ws) (auto simp: notifications_to_def)

lemma notifications_to_Release_all: "notifications_to w [Release_all ws] = []"
  by (simp add: notifications_to_def)

lemma notifications_to_append:
  "notifications_to w (xs @ ys) = notifications_to w xs @ notifications_to w ys"
  by (simp add: notifications_to_def)

lemma count_list_sorted_less:
  "sorted_wrt (<) (ws :: nat list) \<Longrightarrow> count_list ws w = (if w \<in> set ws then 1 else 0)"
  by (induction ws) auto

lemma set_map_erase_subset: "set (map_erase k xs) \<subseteq> set xs"
  by (induction xs) auto

lemma sorted_map_erase: "sorted_wrt (<) xs \<Longrightarrow> sorted_wrt (<) (map_erase k xs)"
proof (induction xs)
  case Nil
  then show ?case by simp
next
  case (Cons x xs)
  then show ?case using set_map_erase_subset [of k xs] by auto
qed

text \<open>
  Every operation keeps the registry's keys strictly ascending, so the invariant
  holds of every tracker built from an empty registry.
\<close>

lemma registry_ok_preserved:
  "registry_ok t \<Longrightarrow>
     registry_ok (fst (AddWatcher t g w)) \<and>
     registry_ok (fst (RemoveWatcher t w)) \<and>
     registry_ok (fst (SetState t st reason))"
  by (simp add: registry_ok_def AddWatcher_def RemoveWatcher_def SetState_def Let_def
        sorted_map_insert sorted_map_erase)

text \<open>
  Claim C3. \<open>SetState(newState, reason)\<close> with \<open>newState\<close> equal to the current
  state changes nothing and notifies nobody. Otherwise the stored state becomes
  \<open>newState\<close>; the calls made are one \<open>Notify\<close> of \<open>newState\<close> per registry
  entry, followed, exactly when \<open>newState\<close> is SHUTDOWN, by the clearing of the
  registry, which releases exactly the watchers that were registered (in no
  stated order); the registry afterwards is empty for SHUTDOWN and unchanged
  otherwise; with the registry's keys distinct, every registered watcher receives
  exactly the one notification \<open>newState\<close> and nobody else receives any. The
  reason has no influence on the result.
\<close>

theorem SetState_spec:
  "(st = m_state t \<longrightarrow> SetState t st reason = (t, [])) \<and>
   (st \<noteq> m_state t \<longrightarrow>
      m_state (fst (SetState t st reason)) = st \<and>
      snd (SetState t st reason) =
        map (\<lambda>w. Notify w st) (m_watchers t) @
        (if st = GRPC_CHANNEL_SHUTDOWN then [Release_all (set (m_watchers t))] else []) \<and>
      m_watchers (fst (SetState t st reason)) =
        (if st = GRPC_CHANNEL_SHUTDOWN then [] else m_watchers t) \<and>
      (registry_ok t \<longrightarrow>
         (\<forall>w. notifications_to w (snd (SetState t st reason)) =
               (if w \<in> set (m_watchers t) then [st] else [])))) \<and>
   SetState t st reason = SetState t st reason'"
  by (simp add: SetState_def Let_def registry_ok_def notifications_to_append
        notifications_to_map_Notify notifications_to_Release_all count_list_sorted_less)

theorem SetState_spec_witness:
  "SetState \<lparr>m_state = GRPC_CHANNEL_IDLE, m_watchers = [1, 2]\<rparr> GRPC_CHANNEL_IDLE ''same''
     = (\<lparr>m_state = GRPC_CHANNEL_IDLE, m_watchers = [1, 2]\<rparr>, []) \<and>
   snd (SetState \<lparr>m_state = GRPC_CHANNEL_IDLE, m_watchers = [1, 2]\<rparr>
          GRPC_CHANNEL_SHUTDOWN ''bye'')
     = [Notify 1 GRPC_CHANNEL_SHUTDOWN, Notify 2 GRPC_CHANNEL_SHUTDOWN, Release_all {1, 2}] \<and>
   m_watchers (fst (SetState \<lparr>m_state = GRPC_CHANNEL_IDLE, m_watchers = [1, 2]\<rparr>
                      GRPC_CHANNEL_SHUTDOWN ''bye'')) = [] \<and>
   notifications_to 2 (snd (SetState \<lparr>m_state = GRPC_CHANNEL_IDLE, m_watchers = [1, 2]\<rparr>
                              GRPC_CHANNEL_READY ''up''))
     = [GRPC_CHANNEL_READY] \<and>
   snd (SetState \<lparr>m_state = GRPC_CHANNEL_IDLE, m_watchers = [1, 2]\<rparr> GRPC_CHANNEL_READY ''up'')
     = [Notify 1 GRPC_CHANNEL_READY, Notify 2 GRPC_CHANNEL_READY] \<and>
   m_watchers (fst (SetState \<lparr>m_state = GRPC_CHANNEL_IDLE, m_watchers = [1, 2]\<rparr>
                      GRPC_CHANNEL_READY ''up'')) = [1, 2]"
proof -
  let ?t = "\<lparr>m_state = GRPC_CHANNEL_IDLE, m_watchers = [1, 2]\<rparr>"
  have ok: "registry_ok ?t"
    by (simp add: registry_ok_def)
  have ne: "GRPC_CHANNEL_READY \<noteq> m_state ?t"
    by simp
  have same: "SetState ?t GRPC_CHANNEL_IDLE ''same'' = (?t, [])"
    using SetState_spec [of GRPC_CHANNEL_IDLE ?t "''same''" "''same''"] by simp
  have down: "snd (SetState ?t GRPC_CHANNEL_SHUTDOWN ''bye'')
                = [Notify 1 GRPC_CHANNEL_SHUTDOWN, Notify 2 GRPC_CHANNEL_SHUTDOWN,
                   Release_all {1, 2}]
              \<and> m_watchers (fst (SetState ?t GRPC_CHANNEL_SHUTDOWN ''bye'')) = []"
    using SetState_spec [of GRPC_CHANNEL_SHUTDOWN ?t "''bye''" "''bye''"] by simp
  have up: "snd (SetState ?t GRPC_CHANNEL_READY ''up'')
                = [Notify 1 GRPC_CHANNEL_READY, Notify 2 GRPC_CHANNEL_READY]
              \<and> m_watchers (fst (SetState ?t GRPC_CHANNEL_READY ''up'')) = [1, 2]"
    using SetState_spec [of GRPC_CHANNEL_READY ?t "''up''" "''up''"] by simp
  have "\<forall>w. notifications_to w (snd (SetState ?t GRPC_CHANNEL_READY ''up'')) =
             (if w \<in> set (m_watchers ?t) then [GRPC_CHANNEL_READY] else [])"
    using SetState_spec [of GRPC_CHANNEL_READY ?t "''up''" "''up''"] ok ne by blast
  then have two:
    "notifications_to 2 (snd (SetState ?t GRPC_CHANNEL_READY ''up'')) = [GRPC_CHANNEL_READY]"
    by simp
  from same down up two show ?thesis
    by simp
qed

text \<open>
  Claim C7. \<open>AddWatcher(initialStateGuess, watcher)\<close> delivers to the new watcher
  exactly one notification, carrying the current state, when the guess differs
  from the current state, and none when it equals it; no other watcher is
  notified and the state is unchanged. In state SHUTDOWN the registry is left as
  it was and the watcher is released right after the catch-up notification (if
  any); in every other state the watcher is in the registry afterwards (inserted
  by key), and, being new to the registry, it is not released.
\<close>

theorem AddWatcher_spec:
  "notifications_to w (snd (AddWatcher t g w)) = (if g \<noteq> m_state t then [m_state t] else []) \<and>
   (\<forall>v. v \<noteq> w \<longrightarrow> notifications_to v (snd (AddWatcher t g w)) = []) \<and>
   m_state (fst (AddWatcher t g w)) = m_state t \<and>
   (m_state t = GRPC_CHANNEL_SHUTDOWN \<longrightarrow>
      m_watchers (fst (AddWatcher t g w)) = m_watchers t \<and>
      snd (AddWatcher t g w) =
        (if g \<noteq> m_state t then [Notify w (m_state t)] else []) @ [Orphan w]) \<and>
   (m_state t \<noteq> GRPC_CHANNEL_SHUTDOWN \<longrightarrow>
      m_watchers (fst (AddWatcher t g w)) = map_insert w (m_watchers t) \<and>
      set (m_watchers (fst (AddWatcher t g w))) = insert w (set (m_watchers t)) \<and>
      (w \<notin> set (m_watchers t) \<longrightarrow>
         snd (AddWatcher t g w) = (if g \<noteq> m_state t then [Notify w (m_state t)] else [])))"
  by (simp add: AddWatcher_def Let_def notifications_to_def set_map_insert)

theorem AddWatcher_spec_witness:
  "AddWatcher \<lparr>m_state = GRPC_CHANNEL_READY, m_watchers = [1, 5]\<rparr> GRPC_CHANNEL_IDLE 3
     = (\<lparr>m_state = GRPC_CHANNEL_READY, m_watchers = [1, 3, 5]\<rparr>, [Notify 3 GRPC_CHANNEL_READY]) \<and>
   AddWatcher \<lparr>m_state = GRPC_CHANNEL_READY, m_watchers = [1, 5]\<rparr> GRPC_CHANNEL_READY 3
     = (\<lparr>m_state = GRPC_CHANNEL_READY, m_watchers = [1, 3, 5]\<rparr>, []) \<and>
   AddWatcher \<lparr>m_state = GRPC_CHANNEL_SHUTDOWN, m_watchers = []\<rparr> GRPC_CHANNEL_IDLE 3
     = (\<lparr>m_state = GRPC_CHANNEL_SHUTDOWN, m_watchers = []\<rparr>,
        [Notify 3 GRPC_CHANNEL_SHUTDOWN, Orphan 3])"
proof -
  let ?r = "\<lparr>m_state = GRPC_CHANNEL_READY, m_watchers = [1, 5]\<rparr>"
  let ?s = "\<lparr>m_state = GRPC_CHANNEL_SHUTDOWN, m_watchers = []\<rparr>"
  have a: "AddWatcher ?r GRPC_CHANNEL_IDLE 3
             = (\<lparr>m_state = GRPC_CHANNEL_READY, m_watchers = [1, 3, 5]\<rparr>,
                [Notify 3 GRPC_CHANNEL_READY])"
    using AddWatcher_spec [of 3 ?r GRPC_CHANNEL_IDLE]
    by (cases "AddWatcher ?r GRPC_CHANNEL_IDLE 3") simp
  have b: "AddWatcher ?r GRPC_CHANNEL_READY 3
             = (\<lparr>m_state = GRPC_CHANNEL_READY, m_watchers = [1, 3, 5]\<rparr>, [])"
    using AddWatcher_spec [of 3 ?r GRPC_CHANNEL_READY]
    by (cases "AddWatcher ?r GRPC_CHANNEL_READY 3") simp
  have c: "AddWatcher ?s GRPC_CHANNEL_IDLE 3
             = (?s, [Notify 3 GRPC_CHANNEL_SHUTDOWN, Orphan 3])"
    using AddWatcher_spec [of 3 ?s GRPC_CHANNEL_IDLE]
    by (cases "AddWatcher ?s GRPC_CHANNEL_IDLE 3") simp
  from a b c show ?thesis
    by simp
qed

section \<open>Properties of the credential reload protocol\<close>

lemma rebuilds_fetch_trace: "rebuilds (fetch_trace (TlsFetchKeyMaterials cfg options rs)) = 0"
  by (simp add: TlsFetchKeyMaterials_def rebuilds_def Let_def split: option.splits prod.splits)

lemma releases_fetch_trace: "releases (fetch_trace (TlsFetchKeyMaterials cfg options rs)) = 0"
  by (simp add: TlsFetchKeyMaterials_def releases_def Let_def split: option.splits prod.splits)

lemma rebuilds_append: "rebuilds (xs @ ys) = rebuilds xs + rebuilds ys"
  by (simp add: rebuilds_def)

lemma releases_append: "releases (xs @ ys) = releases xs + releases ys"
  by (simp add: releases_def)

text \<open>
  Claim C4. \<open>TlsFetchKeyMaterials\<close> returns FAILED\_PRECONDITION exactly when no
  credential-reload capability is configured and the store's cert-pair list is
  empty; in that case no call is made at all (no reload is scheduled), and the
  store and the reload status are returned as they were passed in.
\<close>

theorem TlsFetchKeyMaterials_failed_precondition:
  "(fetch_status (TlsFetchKeyMaterials cfg options rs) = GRPC_STATUS_FAILED_PRECONDITION)
     = (credential_reload_config options = None \<and> pem_key_cert_pair_list cfg = []) \<and>
   (credential_reload_config options = None \<and> pem_key_cert_pair_list cfg = [] \<longrightarrow>
      fetch_trace (TlsFetchKeyMaterials cfg options rs) = [] \<and>
      fetch_store (TlsFetchKeyMaterials cfg options rs) = cfg \<and>
      fetch_reload_status (TlsFetchKeyMaterials cfg options rs) = rs)"
  by (simp add: TlsFetchKeyMaterials_def Let_def split: option.splits prod.splits)

theorem TlsFetchKeyMaterials_failed_precondition_witness:
  "fetch_status (TlsFetchKeyMaterials grpc_tls_key_materials_config_create example_options
                   GRPC_SSL_CERTIFICATE_CONFIG_RELOAD_NEW) = GRPC_STATUS_FAILED_PRECONDITION \<and>
   fetch_trace (TlsFetchKeyMaterials grpc_tls_key_materials_config_create example_options
                  GRPC_SSL_CERTIFICATE_CONFIG_RELOAD_NEW) = [] \<and>
   fetch_store (TlsFetchKeyMaterials grpc_tls_key_materials_config_create example_options
                  GRPC_SSL_CERTIFICATE_CONFIG_RELOAD_NEW) = grpc_tls_key_materials_config_create \<and>
   fetch_status (TlsFetchKeyMaterials example_store example_options
                   GRPC_SSL_CERTIFICATE_CONFIG_RELOAD_NEW) \<noteq> GRPC_STATUS_FAILED_PRECONDITION"
proof -
  have none: "credential_reload_config example_options = None"
    by (simp add: example_options_def)
  have empty: "pem_key_cert_pair_list grpc_tls_key_materials_config_create = []"
    by (simp add: grpc_tls_key_materials_config_create_def)
  have filled: "pem_key_cert_pair_list example_store \<noteq> []"
    by (simp add: example_store_def)
  show ?thesis
    using TlsFetchKeyMaterials_failed_precondition
            [of grpc_tls_key_materials_config_create example_options
                GRPC_SSL_CERTIFICATE_CONFIG_RELOAD_NEW]
          TlsFetchKeyMaterials_failed_precondition
            [of example_store example_options GRPC_SSL_CERTIFICATE_CONFIG_RELOAD_NEW]
          none empty filled
    by simp
qed

text \<open>
  Claim C5. When the configured reload capability's \<open>Schedule\<close> returns nonzero
  (asynchronous completion), \<open>TlsFetchKeyMaterials\<close> returns UNIMPLEMENTED if the
  store was empty at entry and OK otherwise. It does not wait: the result is
  fixed by the emptiness at entry alone, the reload status is left as passed in,
  the store is as the capability left it when \<open>Schedule\<close> returned, and the
  only calls are the one \<open>Schedule\<close> and the release of the request, which is
  deleted before the function returns.
\<close>

theorem TlsFetchKeyMaterials_async:
  assumes "credential_reload_config options = Some Schedule"
    and "Schedule (New_credential_reload_arg cfg) = (result, arg)"
    and "result \<noteq> 0"
  shows "fetch_status (TlsFetchKeyMaterials cfg options rs) =
           (if pem_key_cert_pair_list cfg = []
            then GRPC_STATUS_UNIMPLEMENTED else GRPC_STATUS_OK) \<and>
         fetch_reload_status (TlsFetchKeyMaterials cfg options rs) = rs \<and>
         fetch_store (TlsFetchKeyMaterials cfg options rs) = arg_key_materials_config arg \<and>
         fetch_trace (TlsFetchKeyMaterials cfg options rs) =
           [Reload_schedule, Free_error_details (arg_error_details arg)]
           @ (case arg_destroy_context arg of
                None \<Rightarrow> [] | Some hook \<Rightarrow> [Destroy_context hook (arg_context arg)])
           @ [Delete_reload_arg]"
  using assms by (simp add: TlsFetchKeyMaterials_def Let_def)

theorem TlsFetchKeyMaterials_async_witness:
  "fetch_status (TlsFetchKeyMaterials grpc_tls_key_materials_config_create
                   (example_options\<lparr>credential_reload_config := Some reload_async\<rparr>)
                   GRPC_SSL_CERTIFICATE_CONFIG_RELOAD_UNCHANGED) = GRPC_STATUS_UNIMPLEMENTED \<and>
   fetch_status (TlsFetchKeyMaterials example_store
                   (example_options\<lparr>credential_reload_config := Some reload_async\<rparr>)
                   GRPC_SSL_CERTIFICATE_CONFIG_RELOAD_UNCHANGED) = GRPC_STATUS_OK \<and>
   fetch_trace (TlsFetchKeyMaterials example_store
                  (example_options\<lparr>credential_reload_config := Some reload_async\<rparr>)
                  GRPC_SSL_CERTIFICATE_CONFIG_RELOAD_UNCHANGED)
     = [Reload_schedule, Free_error_details None, Delete_reload_arg]"
proof -
  let ?options = "example_options\<lparr>credential_reload_config := Some reload_async\<rparr>"
  have cap: "credential_reload_config ?options = Some reload_async"
    by simp
  have run: "reload_async (New_credential_reload_arg cfg) = (1, New_credential_reload_arg cfg)"
    for cfg
    by (simp add: reload_async_def)
  have nz: "(1::int) \<noteq> 0"
    by simp
  show ?thesis
    using TlsFetchKeyMaterials_async [OF cap run nz,
            of grpc_tls_key_materials_config_create GRPC_SSL_CERTIFICATE_CONFIG_RELOAD_UNCHANGED]
          TlsFetchKeyMaterials_async [OF cap run nz,
            of example_store GRPC_SSL_CERTIFICATE_CONFIG_RELOAD_UNCHANGED]
    by (simp add: grpc_tls_key_materials_config_create_def example_store_def
          New_credential_reload_arg_def)
qed

text \<open>
  Claim C6. When \<open>Schedule\<close> returns 0 and the request's status is FAIL,
  \<open>TlsFetchKeyMaterials\<close> returns INTERNAL if the store was empty at entry and OK
  otherwise; the function itself does not touch the store, which stays as the
  capability left it. In both cases, before returning, the request's error
  details are freed, its destroy-context hook is called on its context if the
  hook is set, and the request is deleted.
\<close>

theorem TlsFetchKeyMaterials_sync_fail:
  assumes "credential_reload_config options = Some Schedule"
    and "Schedule (New_credential_reload_arg cfg) = (0, arg)"
    and "arg_status arg = GRPC_SSL_CERTIFICATE_CONFIG_RELOAD_FAIL"
  shows "fetch_status (TlsFetchKeyMaterials cfg options rs) =
           (if pem_key_cert_pair_list cfg = []
            then GRPC_STATUS_INTERNAL else GRPC_STATUS_OK) \<and>
         fetch_store (TlsFetchKeyMaterials cfg options rs) = arg_key_materials_config arg \<and>
         fetch_trace (TlsFetchKeyMaterials cfg options rs) =
           [Reload_schedule, Free_error_details (arg_error_details arg)]
           @ (case arg_destroy_context arg of
                None \<Rightarrow> [] | Some hook \<Rightarrow> [Destroy_context hook (arg_context arg)])
           @ [Delete_reload_arg]"
  using assms by (simp add: TlsFetchKeyMaterials_def Let_def)

theorem TlsFetchKeyMaterials_sync_fail_witness:
  "fetch_status (TlsFetchKeyMaterials grpc_tls_key_materials_config_create
                   (example_options\<lparr>credential_reload_config := Some reload_sync_fail\<rparr>)
                   GRPC_SSL_CERTIFICATE_CONFIG_RELOAD_UNCHANGED) = GRPC_STATUS_INTERNAL \<and>
   fetch_status (TlsFetchKeyMaterials example_store
                   (example_options\<lparr>credential_reload_config := Some reload_sync_fail\<rparr>)
                   GRPC_SSL_CERTIFICATE_CONFIG_RELOAD_UNCHANGED) = GRPC_STATUS_OK \<and>
   fetch_trace (TlsFetchKeyMaterials example_store
                  (example_options\<lparr>credential_reload_config := Some reload_sync_fail\<rparr>)
                  GRPC_SSL_CERTIFICATE_CONFIG_RELOAD_UNCHANGED)
     = [Reload_schedule, Free_error_details (Some ''cannot read certificate''),
        Destroy_context 5 9, Delete_reload_arg]"
proof -
  let ?options = "example_options\<lparr>credential_reload_config := Some reload_sync_fail\<rparr>"
  let ?arg = "\<lambda>cfg. snd (reload_sync_fail (New_credential_reload_arg cfg))"
  have cap: "credential_reload_config ?options = Some reload_sync_fail"
    by simp
  have run: "reload_sync_fail (New_credential_reload_arg cfg) = (0, ?arg cfg)" for cfg
    by (simp add: reload_sync_fail_def)
  have failed: "arg_status (?arg cfg) = GRPC_SSL_CERTIFICATE_CONFIG_RELOAD_FAIL" for cfg
    by (simp add: reload_sync_fail_def)
  show ?thesis
    using TlsFetchKeyMaterials_sync_fail [OF cap run failed,
            of grpc_tls_key_materials_config_create GRPC_SSL_CERTIFICATE_CONFIG_RELOAD_UNCHANGED]
          TlsFetchKeyMaterials_sync_fail [OF cap run failed,
            of example_store GRPC_SSL_CERTIFICATE_CONFIG_RELOAD_UNCHANGED]
    by (simp add: grpc_tls_key_materials_config_create_def example_store_def
          reload_sync_fail_def)
qed

section \<open>Properties of peer verification\<close>

lemma Process_cases:
  "(check_status arg = GRPC_STATUS_OK \<and> success arg \<noteq> 0 \<longrightarrow>
      ProcessServerAuthorizationCheckResult arg = GRPC_ERROR_NONE) \<and>
   (check_status arg = GRPC_STATUS_OK \<and> success arg = 0 \<longrightarrow>
      ProcessServerAuthorizationCheckResult arg =
        GRPC_ERROR (''Server authorization check failed with error: ''
                    @ format_s (error_details arg))) \<and>
   (check_status arg = GRPC_STATUS_CANCELLED \<longrightarrow>
      ProcessServerAuthorizationCheckResult arg =
        GRPC_ERROR (''Server authorization check is cancelled by the caller with error: ''
                    @ format_s (error_details arg))) \<and>
   (check_status arg \<noteq> GRPC_STATUS_OK \<and> check_status arg \<noteq> GRPC_STATUS_CANCELLED \<longrightarrow>
      ProcessServerAuthorizationCheckResult arg =
        GRPC_ERROR (''Server authorization check did not finish correctly with error: ''
                    @ format_s (error_details arg)))"
  unfolding ProcessServerAuthorizationCheckResult_def by simp

lemma Process_pure:
  "check_status arg' = check_status arg \<Longrightarrow> success arg' = success arg \<Longrightarrow>
   error_details arg' = error_details arg \<Longrightarrow>
   ProcessServerAuthorizationCheckResult arg' = ProcessServerAuthorizationCheckResult arg"
  unfolding ProcessServerAuthorizationCheckResult_def by simp

lemma check_peer_reaches_check:
  assumes alpn: "grpc_ssl_check_alpn env peer = GRPC_ERROR_NONE"
    and config: "server_authorization_check_config (channel_creds_options c) = Some Schedule"
    and pem: "tsi_peer_get_property_by_name peer TSI_X509_PEM_CERT_PROPERTY = Some p"
  shows "\<exists>arg1 arg2 callback_status.
         Schedule arg1 = (callback_status, arg2) \<and>
         m_check_arg (connector_after (check_peer env c peer cb)) = arg2 \<and>
         m_on_peer_checked (connector_after (check_peer env c peer cb)) = Some cb \<and>
         check_peer_trace (check_peer env c peer cb) =
           (if callback_status \<noteq> 0
            then [Authorization_schedule arg1, Peer_destruct]
            else [Authorization_schedule arg1,
                  ExecCtx_Run (Some cb) (ProcessServerAuthorizationCheckResult arg2),
                  Peer_destruct])"
proof -
  let ?arg1 = "(m_check_arg c)
       \<lparr>peer_cert := (if peer_cert (m_check_arg c) = None
                      then Some (c_str (property_value p)) else peer_cert (m_check_arg c)),
        target_name := (if target_name (m_check_arg c) = None
                        then Some (case m_overridden_target_name c of
                                     Some n \<Rightarrow> n | None \<Rightarrow> m_target_name c)
                        else target_name (m_check_arg c))\<rparr>"
  show ?thesis
    apply (rule exI [of _ ?arg1])
    apply (rule exI [of _ "snd (Schedule ?arg1)"])
    apply (rule exI [of _ "fst (Schedule ?arg1)"])
    apply (simp add: check_peer_def Let_def alpn config pem case_prod_beta)
    done
qed

text \<open>
  Claim C1. \<open>ProcessServerAuthorizationCheckResult\<close> depends on the request only
  through (status, success, error\_details): status OK with success nonzero gives
  no error; status OK with success zero gives the error whose message is
  ``Server authorization check failed with error: '' followed by the error
  details; status CANCELLED gives an error; every other status gives the error
  ``Server authorization check did not finish correctly with error: ...''. The
  asynchronous callback \<open>ServerAuthorizationCheckDone\<close> runs the stored closure
  with the result of this function on its request; and a \<open>check_peer\<close> that
  reaches the check stores the caller's closure and, when the capability
  completes synchronously, runs that closure with the result of the same
  function on the request as the capability left it. So both paths deliver
  the same error for the same (status, success, error\_details).
\<close>

theorem authorization_result_interpretation:
  "(check_status arg = GRPC_STATUS_OK \<and> success arg \<noteq> 0 \<longrightarrow>
      ProcessServerAuthorizationCheckResult arg = GRPC_ERROR_NONE) \<and>
   (check_status arg = GRPC_STATUS_OK \<and> success arg = 0 \<longrightarrow>
      ProcessServerAuthorizationCheckResult arg =
        GRPC_ERROR (''Server authorization check failed with error: ''
                    @ format_s (error_details arg))) \<and>
   (check_status arg = GRPC_STATUS_CANCELLED \<longrightarrow>
      ProcessServerAuthorizationCheckResult arg =
        GRPC_ERROR (''Server authorization check is cancelled by the caller with error: ''
                    @ format_s (error_details arg))) \<and>
   (check_status arg \<noteq> GRPC_STATUS_OK \<and> check_status arg \<noteq> GRPC_STATUS_CANCELLED \<longrightarrow>
      ProcessServerAuthorizationCheckResult arg =
        GRPC_ERROR (''Server authorization check did not finish correctly with error: ''
                    @ format_s (error_details arg))) \<and>
   (\<forall>d. error_details arg = Some d \<longrightarrow> format_s (error_details arg) = d) \<and>
   (\<forall>arg'. check_status arg' = check_status arg \<and> success arg' = success arg \<and>
           error_details arg' = error_details arg \<longrightarrow>
           ProcessServerAuthorizationCheckResult arg' =
           ProcessServerAuthorizationCheckResult arg) \<and>
   ServerAuthorizationCheckDone c arg =
     [ExecCtx_Run (m_on_peer_checked c) (ProcessServerAuthorizationCheckResult arg)] \<and>
   (\<forall>Schedule p.
      grpc_ssl_check_alpn env peer = GRPC_ERROR_NONE \<and>
      server_authorization_check_config (channel_creds_options c) = Some Schedule \<and>
      tsi_peer_get_property_by_name peer TSI_X509_PEM_CERT_PROPERTY = Some p \<longrightarrow>
      (\<exists>arg1 arg2 callback_status.
         Schedule arg1 = (callback_status, arg2) \<and>
         m_check_arg (connector_after (check_peer env c peer cb)) = arg2 \<and>
         m_on_peer_checked (connector_after (check_peer env c peer cb)) = Some cb \<and>
         check_peer_trace (check_peer env c peer cb) =
           (if callback_status \<noteq> 0
            then [Authorization_schedule arg1, Peer_destruct]
            else [Authorization_schedule arg1,
                  ExecCtx_Run (Some cb) (ProcessServerAuthorizationCheckResult arg2),
                  Peer_destruct])))"
proof -
  have details: "\<forall>d. error_details arg = Some d \<longrightarrow> format_s (error_details arg) = d"
    by (simp add: format_s_def)
  have pure: "\<forall>arg'. check_status arg' = check_status arg \<and> success arg' = success arg \<and>
           error_details arg' = error_details arg \<longrightarrow>
           ProcessServerAuthorizationCheckResult arg' =
           ProcessServerAuthorizationCheckResult arg"
    using Process_pure by blast
  have async: "ServerAuthorizationCheckDone c arg =
     [ExecCtx_Run (m_on_peer_checked c) (ProcessServerAuthorizationCheckResult arg)]"
    by (simp add: ServerAuthorizationCheckDone_def)
  have sync: "\<forall>Schedule p.
      grpc_ssl_check_alpn env peer = GRPC_ERROR_NONE \<and>
      server_authorization_check_config (channel_creds_options c) = Some Schedule \<and>
      tsi_peer_get_property_by_name peer TSI_X509_PEM_CERT_PROPERTY = Some p \<longrightarrow>
      (\<exists>arg1 arg2 callback_status.
         Schedule arg1 = (callback_status, arg2) \<and>
         m_check_arg (connector_after (check_peer env c peer cb)) = arg2 \<and>
         m_on_peer_checked (connector_after (check_peer env c peer cb)) = Some cb \<and>
         check_peer_trace (check_peer env c peer cb) =
           (if callback_status \<noteq> 0
            then [Authorization_schedule arg1, Peer_destruct]
            else [Authorization_schedule arg1,
                  ExecCtx_Run (Some cb) (ProcessServerAuthorizationCheckResult arg2),
                  Peer_destruct]))"
    using check_peer_reaches_check by blast
  from Process_cases [of arg] details pure async sync show ?thesis
    by blast
qed

theorem authorization_result_interpretation_witness:
  "ProcessServerAuthorizationCheckResult (ServerAuthorizationCheckArgCreate\<lparr>success := 1\<rparr>)
     = GRPC_ERROR_NONE \<and>
   ProcessServerAuthorizationCheckResult
       (ServerAuthorizationCheckArgCreate\<lparr>error_details := Some ''denied''\<rparr>)
     = GRPC_ERROR ''Server authorization check failed with error: denied'' \<and>
   ProcessServerAuthorizationCheckResult
       (ServerAuthorizationCheckArgCreate
          \<lparr>check_status := GRPC_STATUS_CANCELLED, error_details := Some ''stop''\<rparr>)
     = GRPC_ERROR ''Server authorization check is cancelled by the caller with error: stop'' \<and>
   ProcessServerAuthorizationCheckResult
       (ServerAuthorizationCheckArgCreate
          \<lparr>check_status := GRPC_STATUS_INTERNAL, error_details := Some ''crash''\<rparr>)
     = GRPC_ERROR ''Server authorization check did not finish correctly with error: crash'' \<and>
   ProcessServerAuthorizationCheckResult
       (ServerAuthorizationCheckArgCreate\<lparr>peer_cert := Some ''PEM''\<rparr>)
     = ProcessServerAuthorizationCheckResult ServerAuthorizationCheckArgCreate \<and>
   ExecCtx_Run (Some 3) (GRPC_ERROR ''Server authorization check failed with error: denied'')
     \<in> set (check_peer_trace
              (check_peer example_env example_checking_connector example_peer_with_cert 3)) \<and>
   ServerAuthorizationCheckDone
       (connector_after
          (check_peer example_env example_checking_connector example_peer_with_cert 3))
       (ServerAuthorizationCheckArgCreate\<lparr>error_details := Some ''denied''\<rparr>)
     = [ExecCtx_Run (Some 3)
          (GRPC_ERROR ''Server authorization check failed with error: denied'')]"
proof -
  let ?new = ServerAuthorizationCheckArgCreate
  let ?run = "check_peer example_env example_checking_connector example_peer_with_cert 3"
  note T = authorization_result_interpretation
             [where c = "connector_after ?run" and env = example_env
                and peer = example_peer_with_cert and cb = 3]
  note U = authorization_result_interpretation
             [where c = example_checking_connector and env = example_env
                and peer = example_peer_with_cert and cb = 3 and arg = ?new]
  have alpn: "grpc_ssl_check_alpn example_env example_peer_with_cert = GRPC_ERROR_NONE"
    by (simp add: example_env_def example_peer_with_cert_def example_peer_def)
  have config: "server_authorization_check_config
                  (channel_creds_options example_checking_connector)
                = Some authorization_sync_reject"
    by (simp add: example_checking_connector_def)
  have pem: "tsi_peer_get_property_by_name example_peer_with_cert TSI_X509_PEM_CERT_PROPERTY
               = Some \<lparr>property_name = TSI_X509_PEM_CERT_PROPERTY, property_value = ''PEM''\<rparr>"
    by (simp add: tsi_peer_get_property_by_name_def example_peer_with_cert_def
          example_peer_def TSI_X509_PEM_CERT_PROPERTY_def)
  from U alpn config pem obtain arg1 arg2 callback_status where
      sched: "authorization_sync_reject arg1 = (callback_status, arg2)"
      and stored: "m_on_peer_checked (connector_after ?run) = Some 3"
      and trace: "check_peer_trace ?run =
           (if callback_status \<noteq> 0
            then [Authorization_schedule arg1, Peer_destruct]
            else [Authorization_schedule arg1,
                  ExecCtx_Run (Some 3) (ProcessServerAuthorizationCheckResult arg2),
                  Peer_destruct])"
    by blast
  from sched have sync: "callback_status = 0"
    and left: "check_status arg2 = GRPC_STATUS_OK" "success arg2 = 0"
              "error_details arg2 = Some ''denied''"
    by (auto simp: authorization_sync_reject_def)
  have rejected: "ProcessServerAuthorizationCheckResult arg2
                    = GRPC_ERROR ''Server authorization check failed with error: denied''"
    using authorization_result_interpretation
            [where arg = arg2 and c = example_checking_connector and env = example_env
               and peer = example_peer_with_cert and cb = 3] left
    by simp
  have p1: "ProcessServerAuthorizationCheckResult (?new\<lparr>success := 1\<rparr>) = GRPC_ERROR_NONE"
    using T [where arg = "?new\<lparr>success := 1\<rparr>"]
    by (simp add: ServerAuthorizationCheckArgCreate_def)
  have p2: "ProcessServerAuthorizationCheckResult (?new\<lparr>error_details := Some ''denied''\<rparr>)
              = GRPC_ERROR ''Server authorization check failed with error: denied''"
    using T [where arg = "?new\<lparr>error_details := Some ''denied''\<rparr>"]
    by (simp add: ServerAuthorizationCheckArgCreate_def)
  have p3: "ProcessServerAuthorizationCheckResult
              (?new\<lparr>check_status := GRPC_STATUS_CANCELLED, error_details := Some ''stop''\<rparr>)
              = GRPC_ERROR
                  ''Server authorization check is cancelled by the caller with error: stop''"
    using T [where arg = "?new\<lparr>check_status := GRPC_STATUS_CANCELLED,
                                 error_details := Some ''stop''\<rparr>"]
    by (simp add: ServerAuthorizationCheckArgCreate_def)
  have p4: "ProcessServerAuthorizationCheckResult
              (?new\<lparr>check_status := GRPC_STATUS_INTERNAL, error_details := Some ''crash''\<rparr>)
              = GRPC_ERROR
                  ''Server authorization check did not finish correctly with error: crash''"
    using T [where arg = "?new\<lparr>check_status := GRPC_STATUS_INTERNAL,
                                 error_details := Some ''crash''\<rparr>"]
    by (simp add: ServerAuthorizationCheckArgCreate_def)
  have p5: "ProcessServerAuthorizationCheckResult (?new\<lparr>peer_cert := Some ''PEM''\<rparr>)
              = ProcessServerAuthorizationCheckResult ?new"
  proof -
    from U have "\<forall>arg'. check_status arg' = check_status ?new \<and> success arg' = success ?new \<and>
           error_details arg' = error_details ?new \<longrightarrow>
           ProcessServerAuthorizationCheckResult arg' =
           ProcessServerAuthorizationCheckResult ?new"
      by blast
    then have "check_status (?new\<lparr>peer_cert := Some ''PEM''\<rparr>) = check_status ?new \<and>
               success (?new\<lparr>peer_cert := Some ''PEM''\<rparr>) = success ?new \<and>
               error_details (?new\<lparr>peer_cert := Some ''PEM''\<rparr>) = error_details ?new \<longrightarrow>
               ProcessServerAuthorizationCheckResult (?new\<lparr>peer_cert := Some ''PEM''\<rparr>) =
               ProcessServerAuthorizationCheckResult ?new"
      by blast
    then show ?thesis
      by simp
  qed
  have p6: "ExecCtx_Run (Some 3)
              (GRPC_ERROR ''Server authorization check failed with error: denied'')
            \<in> set (check_peer_trace ?run)"
    using trace sync rejected by simp
  have p7: "ServerAuthorizationCheckDone (connector_after ?run)
              (?new\<lparr>error_details := Some ''denied''\<rparr>)
            = [ExecCtx_Run (Some 3)
                 (GRPC_ERROR ''Server authorization check failed with error: denied'')]"
  proof -
    from T [where arg = "?new\<lparr>error_details := Some ''denied''\<rparr>"]
    have "ServerAuthorizationCheckDone (connector_after ?run)
            (?new\<lparr>error_details := Some ''denied''\<rparr>)
          = [ExecCtx_Run (m_on_peer_checked (connector_after ?run))
               (ProcessServerAuthorizationCheckResult
                  (?new\<lparr>error_details := Some ''denied''\<rparr>))]"
      by blast
    with stored p2 show ?thesis
      by simp
  qed
  from p1 p2 p3 p4 p5 p6 p7 show ?thesis
    by simp
qed

text \<open>
  Claim C8. With a server-authorization-check capability configured, a peer that
  passes the ALPN check and has no PEM certificate property makes \<open>check_peer\<close>
  perform exactly two calls: the completion closure is run once, with the error
  ``Cannot check peer: missing pem cert property.'', and then the peer is
  destructed. The capability is not invoked, and the connector (its reusable
  request included) is unchanged.
\<close>

theorem check_peer_missing_pem_cert:
  assumes "grpc_ssl_check_alpn env peer = GRPC_ERROR_NONE"
    and "server_authorization_check_config (channel_creds_options c) = Some Schedule"
    and "tsi_peer_get_property_by_name peer TSI_X509_PEM_CERT_PROPERTY = None"
  shows "check_peer_trace (check_peer env c peer on_peer_checked) =
           [ExecCtx_Run (Some on_peer_checked)
              (GRPC_ERROR ''Cannot check peer: missing pem cert property.''),
            Peer_destruct] \<and>
         length (filter is_ExecCtx_Run
                   (check_peer_trace (check_peer env c peer on_peer_checked))) = 1 \<and>
         filter is_Authorization_schedule
           (check_peer_trace (check_peer env c peer on_peer_checked)) = [] \<and>
         connector_after (check_peer env c peer on_peer_checked) = c"
  using assms by (simp add: check_peer_def Let_def)

theorem check_peer_missing_pem_cert_witness:
  "check_peer_trace (check_peer example_env example_checking_connector example_peer 3) =
     [ExecCtx_Run (Some 3) (GRPC_ERROR ''Cannot check peer: missing pem cert property.''),
      Peer_destruct] \<and>
   connector_after (check_peer example_env example_checking_connector example_peer 3)
     = example_checking_connector"
proof -
  have alpn: "grpc_ssl_check_alpn example_env example_peer = GRPC_ERROR_NONE"
    by (simp add: example_env_def example_peer_def)
  have config: "server_authorization_check_config
                  (channel_creds_options example_checking_connector)
                = Some authorization_sync_reject"
    by (simp add: example_checking_connector_def)
  have missing: "tsi_peer_get_property_by_name example_peer TSI_X509_PEM_CERT_PROPERTY = None"
    by (simp add: tsi_peer_get_property_by_name_def example_peer_def
          TSI_X509_PEM_CERT_PROPERTY_def)
  from check_peer_missing_pem_cert [OF alpn config missing, of 3] show ?thesis
    by simp
qed

section \<open>Properties of the handshaker factory lifecycle\<close>

lemma fetch_reload_status_eq:
  "fetch_reload_status (TlsFetchKeyMaterials cfg options rs) =
     (case credential_reload_config options of
        None \<Rightarrow> rs
      | Some Schedule \<Rightarrow>
          (if fst (Schedule (New_credential_reload_arg cfg)) \<noteq> 0 then rs
           else arg_status (snd (Schedule (New_credential_reload_arg cfg)))))"
  by (simp add: TlsFetchKeyMaterials_def Let_def case_prod_beta split: option.splits)

lemma fetch_status_async:
  "credential_reload_config options = Some Schedule \<Longrightarrow>
   fst (Schedule (New_credential_reload_arg cfg)) \<noteq> 0 \<Longrightarrow>
   fetch_status (TlsFetchKeyMaterials cfg options rs) =
     (if pem_key_cert_pair_list cfg = [] then GRPC_STATUS_UNIMPLEMENTED else GRPC_STATUS_OK)"
  by (simp add: TlsFetchKeyMaterials_def Let_def case_prod_beta)

text \<open>
  What \<open>RefreshHandshakerFactory\<close> returns once \<open>TlsFetchKeyMaterials\<close> has
  returned OK: with a status other than NEW, \<open>GRPC_SECURITY_OK\<close>, the factory
  slot untouched and no further call; with status NEW and a non-empty cert-pair
  list, the status and the factory that the constructor returns, after the
  release of the old factory (if any) and one constructor call.
\<close>

lemma Channel_Refresh_reuse:
  assumes "r = TlsFetchKeyMaterials (m_key_materials_config c) (channel_creds_options c)
                 GRPC_SSL_CERTIFICATE_CONFIG_RELOAD_UNCHANGED"
    and "fetch_status r = GRPC_STATUS_OK"
    and "fetch_reload_status r \<noteq> GRPC_SSL_CERTIFICATE_CONFIG_RELOAD_NEW"
  shows "Channel_RefreshHandshakerFactory env c =
           Returned (GRPC_SECURITY_OK, c\<lparr>m_key_materials_config := fetch_store r\<rparr>)
             (fetch_trace r)"
  using assms by (simp add: Channel_RefreshHandshakerFactory_def Let_def)

lemma Channel_Refresh_rebuild:
  assumes "r = TlsFetchKeyMaterials (m_key_materials_config c) (channel_creds_options c)
                 GRPC_SSL_CERTIFICATE_CONFIG_RELOAD_UNCHANGED"
    and "fetch_status r = GRPC_STATUS_OK"
    and "fetch_reload_status r = GRPC_SSL_CERTIFICATE_CONFIG_RELOAD_NEW"
    and "pem_key_cert_pair_list (fetch_store r) \<noteq> []"
  shows "Channel_RefreshHandshakerFactory env c =
           Returned
             (fst (grpc_ssl_tsi_client_handshaker_factory_init env
                     (ConvertToTsiPemKeyCertPair (pem_key_cert_pair_list (fetch_store r)))
                     (pem_root_certs (fetch_store r)) None),
              c\<lparr>m_key_materials_config := fetch_store r,
                m_client_handshaker_factory :=
                  snd (grpc_ssl_tsi_client_handshaker_factory_init env
                         (ConvertToTsiPemKeyCertPair (pem_key_cert_pair_list (fetch_store r)))
                         (pem_root_certs (fetch_store r)) None)\<rparr>)
             (fetch_trace r
              @ (case m_client_handshaker_factory c of
                   None \<Rightarrow> [] | Some f \<Rightarrow> [Factory_unref f])
              @ [Factory_init
                   (ConvertToTsiPemKeyCertPair (pem_key_cert_pair_list (fetch_store r)))
                   (pem_root_certs (fetch_store r)),
                 Pairs_destroy 1])"
  using assms
  by (simp add: Channel_RefreshHandshakerFactory_def Channel_ReplaceHandshakerFactory_def
        Let_def case_prod_beta)

lemma Server_Refresh_reuse:
  assumes "r = TlsFetchKeyMaterials (m_server_key_materials_config s) (server_creds_options s)
                 GRPC_SSL_CERTIFICATE_CONFIG_RELOAD_UNCHANGED"
    and "fetch_status r = GRPC_STATUS_OK"
    and "fetch_reload_status r \<noteq> GRPC_SSL_CERTIFICATE_CONFIG_RELOAD_NEW"
  shows "Server_RefreshHandshakerFactory env s =
           Returned (GRPC_SECURITY_OK, s\<lparr>m_server_key_materials_config := fetch_store r\<rparr>)
             (fetch_trace r)"
  using assms by (simp add: Server_RefreshHandshakerFactory_def Let_def)

lemma Server_Refresh_rebuild:
  assumes "r = TlsFetchKeyMaterials (m_server_key_materials_config s) (server_creds_options s)
                 GRPC_SSL_CERTIFICATE_CONFIG_RELOAD_UNCHANGED"
    and "fetch_status r = GRPC_STATUS_OK"
    and "fetch_reload_status r = GRPC_SSL_CERTIFICATE_CONFIG_RELOAD_NEW"
    and "pem_key_cert_pair_list (fetch_store r) \<noteq> []"
  shows "Server_RefreshHandshakerFactory env s =
           Returned
             (fst (grpc_ssl_tsi_server_handshaker_factory_init env
                     (ConvertToTsiPemKeyCertPair (pem_key_cert_pair_list (fetch_store r)))
                     (length (pem_key_cert_pair_list (fetch_store r)))
                     (pem_root_certs (fetch_store r))
                     (cert_request_type (server_creds_options s))),
              s\<lparr>m_server_key_materials_config := fetch_store r,
                m_server_handshaker_factory :=
                  snd (grpc_ssl_tsi_server_handshaker_factory_init env
                         (ConvertToTsiPemKeyCertPair (pem_key_cert_pair_list (fetch_store r)))
                         (length (pem_key_cert_pair_list (fetch_store r)))
                         (pem_root_certs (fetch_store r))
                         (cert_request_type (server_creds_options s)))\<rparr>)
             (fetch_trace r
              @ (case m_server_handshaker_factory s of
                   None \<Rightarrow> [] | Some f \<Rightarrow> [Factory_unref f])
              @ [Factory_init
                   (ConvertToTsiPemKeyCertPair (pem_key_cert_pair_list (fetch_store r)))
                   (pem_root_certs (fetch_store r)),
                 Pairs_destroy (length (pem_key_cert_pair_list (fetch_store r)))])"
  using assms
  by (simp add: Server_RefreshHandshakerFactory_def Server_ReplaceHandshakerFactory_def
        Let_def case_prod_beta)

lemmas example_defs =
  example_env_def example_store_def example_options_def example_channel_connector_def
  example_server_connector_def new_SpiffeChannelSecurityConnector_def
  new_SpiffeServerSecurityConnector_def grpc_tls_key_materials_config_create_def
  ServerAuthorizationCheckArgCreate_def New_credential_reload_arg_def set_key_materials_def
  reload_sync_unchanged_def reload_sync_new_def reload_async_def

text \<open>
  Claim C2 fails on the code. On a live connector (client or server) whose
  reload capability replaces the material by an empty cert-pair list and
  reports NEW, \<open>TlsFetchKeyMaterials\<close> returns OK with status NEW without
  looking at the store, \<open>RefreshHandshakerFactory\<close> goes on to
  \<open>ReplaceHandshakerFactory\<close>, the existing factory is released, and then the
  non-emptiness assertion aborts the call: the factory constructor is not
  called, so the factory is destroyed and not rebuilt.
\<close>

theorem RefreshHandshakerFactory_new_without_material:
  "fetch_status (TlsFetchKeyMaterials
                   (m_key_materials_config example_connector_reload_empties)
                   (channel_creds_options example_connector_reload_empties)
                   GRPC_SSL_CERTIFICATE_CONFIG_RELOAD_UNCHANGED) = GRPC_STATUS_OK \<and>
   fetch_reload_status (TlsFetchKeyMaterials
                   (m_key_materials_config example_connector_reload_empties)
                   (channel_creds_options example_connector_reload_empties)
                   GRPC_SSL_CERTIFICATE_CONFIG_RELOAD_UNCHANGED)
     = GRPC_SSL_CERTIFICATE_CONFIG_RELOAD_NEW \<and>
   m_client_handshaker_factory example_connector_reload_empties = Some 7 \<and>
   Channel_RefreshHandshakerFactory example_env example_connector_reload_empties =
     Assert_failed ''!key_materials_config_->pem_key_cert_pair_list().empty()''
       [Reload_schedule, Free_error_details None, Delete_reload_arg, Factory_unref 7] \<and>
   rebuilds (trace_of (Channel_RefreshHandshakerFactory example_env
                         example_connector_reload_empties)) = 0 \<and>
   fetch_status (TlsFetchKeyMaterials
                   (m_server_key_materials_config example_server_reload_empties)
                   (server_creds_options example_server_reload_empties)
                   GRPC_SSL_CERTIFICATE_CONFIG_RELOAD_UNCHANGED) = GRPC_STATUS_OK \<and>
   fetch_reload_status (TlsFetchKeyMaterials
                   (m_server_key_materials_config example_server_reload_empties)
                   (server_creds_options example_server_reload_empties)
                   GRPC_SSL_CERTIFICATE_CONFIG_RELOAD_UNCHANGED)
     = GRPC_SSL_CERTIFICATE_CONFIG_RELOAD_NEW \<and>
   m_server_handshaker_factory example_server_reload_empties = Some 8 \<and>
   Server_RefreshHandshakerFactory example_env example_server_reload_empties =
     Assert_failed ''!key_materials_config_->pem_key_cert_pair_list().empty()''
       [Reload_schedule, Free_error_details None, Delete_reload_arg, Factory_unref 8] \<and>
   rebuilds (trace_of (Server_RefreshHandshakerFactory example_env
                         example_server_reload_empties)) = 0"
  by (simp add: Channel_RefreshHandshakerFactory_def Channel_ReplaceHandshakerFactory_def
        Server_RefreshHandshakerFactory_def Server_ReplaceHandshakerFactory_def
        TlsFetchKeyMaterials_def example_connector_reload_empties_def
        example_server_reload_empties_def example_defs rebuilds_def)

text \<open>
  Claim C9 fails on the code. With no key material configured and a reload
  capability that completes synchronously with UNCHANGED, \<open>TlsFetchKeyMaterials\<close>
  returns OK on the still empty store, \<open>InitializeHandshakerFactory\<close> (client and
  server alike) goes on to \<open>ReplaceHandshakerFactory\<close>, and the non-emptiness
  assertion there fails: creating the connector aborts.
\<close>

theorem InitializeHandshakerFactory_assertion_fires:
  "fetch_status (TlsFetchKeyMaterials grpc_tls_key_materials_config_create
                   example_options_reload_only
                   GRPC_SSL_CERTIFICATE_CONFIG_RELOAD_UNCHANGED) = GRPC_STATUS_OK \<and>
   Channel_InitializeHandshakerFactory example_env
       (new_SpiffeChannelSecurityConnector example_options_reload_only ''server.example'' None)
       None =
     Assert_failed ''!key_materials_config_->pem_key_cert_pair_list().empty()''
       [Reload_schedule, Free_error_details None, Delete_reload_arg] \<and>
   CreateSpiffeChannelSecurityConnector example_env example_options_reload_only
       ''server.example'' None None =
     Assert_failed ''!key_materials_config_->pem_key_cert_pair_list().empty()''
       [Reload_schedule, Free_error_details None, Delete_reload_arg] \<and>
   Server_InitializeHandshakerFactory example_env
       (new_SpiffeServerSecurityConnector example_options_reload_only) =
     Assert_failed ''!key_materials_config_->pem_key_cert_pair_list().empty()''
       [Reload_schedule, Free_error_details None, Delete_reload_arg]"
  by (simp add: CreateSpiffeChannelSecurityConnector_def
        Channel_InitializeHandshakerFactory_def Channel_ReplaceHandshakerFactory_def
        Server_InitializeHandshakerFactory_def Server_ReplaceHandshakerFactory_def
        TlsFetchKeyMaterials_def example_options_reload_only_def example_defs)

text \<open>
  Claim C10. \<open>TlsFetchKeyMaterials\<close> returns the caller's value of
  \<open>reload_status\<close> when no reload capability is configured and when the
  capability's \<open>Schedule\<close> returns nonzero; only when \<open>Schedule\<close> returns 0 is it
  the status the capability left in the request. Hence a
  \<open>RefreshHandshakerFactory\<close> (client or server) whose capability answers
  asynchronously while the store is non-empty at entry returns
  \<open>GRPC_SECURITY_OK\<close> with the factory slot unchanged, and neither releases nor
  constructs a factory.
\<close>

theorem reload_status_written_on_sync_path_only:
  "(credential_reload_config options = None \<longrightarrow>
      fetch_reload_status (TlsFetchKeyMaterials cfg options rs) = rs) \<and>
   (\<forall>Schedule. credential_reload_config options = Some Schedule \<longrightarrow>
      fetch_reload_status (TlsFetchKeyMaterials cfg options rs) =
        (if fst (Schedule (New_credential_reload_arg cfg)) \<noteq> 0 then rs
         else arg_status (snd (Schedule (New_credential_reload_arg cfg))))) \<and>
   (\<forall>Schedule.
      credential_reload_config (channel_creds_options c) = Some Schedule \<and>
      fst (Schedule (New_credential_reload_arg (m_key_materials_config c))) \<noteq> 0 \<and>
      pem_key_cert_pair_list (m_key_materials_config c) \<noteq> [] \<longrightarrow>
      (\<exists>c' evs. Channel_RefreshHandshakerFactory env c = Returned (GRPC_SECURITY_OK, c') evs \<and>
         m_client_handshaker_factory c' = m_client_handshaker_factory c \<and>
         rebuilds evs = 0 \<and> releases evs = 0)) \<and>
   (\<forall>Schedule.
      credential_reload_config (server_creds_options s) = Some Schedule \<and>
      fst (Schedule (New_credential_reload_arg (m_server_key_materials_config s))) \<noteq> 0 \<and>
      pem_key_cert_pair_list (m_server_key_materials_config s) \<noteq> [] \<longrightarrow>
      (\<exists>s' evs. Server_RefreshHandshakerFactory env s = Returned (GRPC_SECURITY_OK, s') evs \<and>
         m_server_handshaker_factory s' = m_server_handshaker_factory s \<and>
         rebuilds evs = 0 \<and> releases evs = 0))"
proof (intro conjI allI impI)
  assume "credential_reload_config options = None"
  then show "fetch_reload_status (TlsFetchKeyMaterials cfg options rs) = rs"
    by (simp add: fetch_reload_status_eq)
next
  fix Schedule
  assume "credential_reload_config options = Some Schedule"
  then show "fetch_reload_status (TlsFetchKeyMaterials cfg options rs) =
        (if fst (Schedule (New_credential_reload_arg cfg)) \<noteq> 0 then rs
         else arg_status (snd (Schedule (New_credential_reload_arg cfg))))"
    by (simp add: fetch_reload_status_eq)
next
  fix Schedule
  let ?r = "TlsFetchKeyMaterials (m_key_materials_config c) (channel_creds_options c)
              GRPC_SSL_CERTIFICATE_CONFIG_RELOAD_UNCHANGED"
  assume h: "credential_reload_config (channel_creds_options c) = Some Schedule \<and>
      fst (Schedule (New_credential_reload_arg (m_key_materials_config c))) \<noteq> 0 \<and>
      pem_key_cert_pair_list (m_key_materials_config c) \<noteq> []"
  then have ok: "fetch_status ?r = GRPC_STATUS_OK"
    by (simp add: fetch_status_async)
  from h have kept: "fetch_reload_status ?r \<noteq> GRPC_SSL_CERTIFICATE_CONFIG_RELOAD_NEW"
    by (simp add: fetch_reload_status_eq)
  from Channel_Refresh_reuse [OF refl ok kept, of env]
  show "\<exists>c' evs. Channel_RefreshHandshakerFactory env c = Returned (GRPC_SECURITY_OK, c') evs \<and>
         m_client_handshaker_factory c' = m_client_handshaker_factory c \<and>
         rebuilds evs = 0 \<and> releases evs = 0"
    by (simp add: rebuilds_fetch_trace releases_fetch_trace)
next
  fix Schedule
  let ?r = "TlsFetchKeyMaterials (m_server_key_materials_config s) (server_creds_options s)
              GRPC_SSL_CERTIFICATE_CONFIG_RELOAD_UNCHANGED"
  assume h: "credential_reload_config (server_creds_options s) = Some Schedule \<and>
      fst (Schedule (New_credential_reload_arg (m_server_key_materials_config s))) \<noteq> 0 \<and>
      pem_key_cert_pair_list (m_server_key_materials_config s) \<noteq> []"
  then have ok: "fetch_status ?r = GRPC_STATUS_OK"
    by (simp add: fetch_status_async)
  from h have kept: "fetch_reload_status ?r \<noteq> GRPC_SSL_CERTIFICATE_CONFIG_RELOAD_NEW"
    by (simp add: fetch_reload_status_eq)
  from Server_Refresh_reuse [OF refl ok kept, of env]
  show "\<exists>s' evs. Server_RefreshHandshakerFactory env s = Returned (GRPC_SECURITY_OK, s') evs \<and>
         m_server_handshaker_factory s' = m_server_handshaker_factory s \<and>
         rebuilds evs = 0 \<and> releases evs = 0"
    by (simp add: rebuilds_fetch_trace releases_fetch_trace)
qed

theorem reload_status_written_on_sync_path_only_witness:
  "fetch_reload_status (TlsFetchKeyMaterials example_store example_options
                          GRPC_SSL_CERTIFICATE_CONFIG_RELOAD_FAIL)
     = GRPC_SSL_CERTIFICATE_CONFIG_RELOAD_FAIL \<and>
   fetch_reload_status (TlsFetchKeyMaterials example_store
                          (channel_creds_options example_connector_reload_async)
                          GRPC_SSL_CERTIFICATE_CONFIG_RELOAD_FAIL)
     = GRPC_SSL_CERTIFICATE_CONFIG_RELOAD_FAIL \<and>
   fetch_reload_status (TlsFetchKeyMaterials example_store
                          (channel_creds_options example_connector_reload_new)
                          GRPC_SSL_CERTIFICATE_CONFIG_RELOAD_FAIL)
     = GRPC_SSL_CERTIFICATE_CONFIG_RELOAD_NEW \<and>
   (\<exists>c' evs. Channel_RefreshHandshakerFactory example_env example_connector_reload_async
               = Returned (GRPC_SECURITY_OK, c') evs \<and>
             m_client_handshaker_factory c' = Some 7 \<and> rebuilds evs = 0 \<and> releases evs = 0) \<and>
   (\<exists>s' evs. Server_RefreshHandshakerFactory example_env example_server_reload_async
               = Returned (GRPC_SECURITY_OK, s') evs \<and>
             m_server_handshaker_factory s' = Some 8 \<and> rebuilds evs = 0 \<and> releases evs = 0)"
proof -
  note A = reload_status_written_on_sync_path_only
             [where options = example_options and cfg = example_store
                and rs = GRPC_SSL_CERTIFICATE_CONFIG_RELOAD_FAIL
                and c = example_connector_reload_async and env = example_env
                and s = example_server_reload_async]
  note B = reload_status_written_on_sync_path_only
             [where options = "channel_creds_options example_connector_reload_async"
                and cfg = example_store and rs = GRPC_SSL_CERTIFICATE_CONFIG_RELOAD_FAIL
                and c = example_connector_reload_async and env = example_env
                and s = example_server_reload_async]
  note C = reload_status_written_on_sync_path_only
             [where options = "channel_creds_options example_connector_reload_new"
                and cfg = example_store and rs = GRPC_SSL_CERTIFICATE_CONFIG_RELOAD_FAIL
                and c = example_connector_reload_async and env = example_env
                and s = example_server_reload_async]
  have none: "credential_reload_config example_options = None"
    by (simp add: example_options_def)
  have cap: "credential_reload_config (channel_creds_options example_connector_reload_async)
               = Some reload_async"
    by (simp add: example_connector_reload_async_def example_defs)
  have scap: "credential_reload_config (server_creds_options example_server_reload_async)
               = Some reload_async"
    by (simp add: example_server_reload_async_def example_defs)
  have capnew: "credential_reload_config (channel_creds_options example_connector_reload_new)
               = Some (reload_sync_new [\<lparr>private_key = ''key2'', cert_chain = ''chain2''\<rparr>])"
    by (simp add: example_connector_reload_new_def example_defs)
  have async: "fst (reload_async a) \<noteq> 0" for a
    by (simp add: reload_async_def)
  have sync: "fst (reload_sync_new ps a) = 0 \<and>
              arg_status (snd (reload_sync_new ps a)) = GRPC_SSL_CERTIFICATE_CONFIG_RELOAD_NEW"
    for ps a
    by (simp add: reload_sync_new_def)
  have filled: "pem_key_cert_pair_list (m_key_materials_config example_connector_reload_async)
                  \<noteq> []"
    by (simp add: example_connector_reload_async_def example_defs)
  have sfilled:
    "pem_key_cert_pair_list (m_server_key_materials_config example_server_reload_async) \<noteq> []"
    by (simp add: example_server_reload_async_def example_defs)
  have slot: "m_client_handshaker_factory example_connector_reload_async = Some 7"
    by (simp add: example_connector_reload_async_def example_defs)
  have sslot: "m_server_handshaker_factory example_server_reload_async = Some 8"
    by (simp add: example_server_reload_async_def example_defs)
  from A none have p1:
    "fetch_reload_status (TlsFetchKeyMaterials example_store example_options
                            GRPC_SSL_CERTIFICATE_CONFIG_RELOAD_FAIL)
       = GRPC_SSL_CERTIFICATE_CONFIG_RELOAD_FAIL"
    by blast
  from B cap async have p2:
    "fetch_reload_status (TlsFetchKeyMaterials example_store
                            (channel_creds_options example_connector_reload_async)
                            GRPC_SSL_CERTIFICATE_CONFIG_RELOAD_FAIL)
       = GRPC_SSL_CERTIFICATE_CONFIG_RELOAD_FAIL"
    by simp
  from C capnew sync have p3:
    "fetch_reload_status (TlsFetchKeyMaterials example_store
                            (channel_creds_options example_connector_reload_new)
                            GRPC_SSL_CERTIFICATE_CONFIG_RELOAD_FAIL)
       = GRPC_SSL_CERTIFICATE_CONFIG_RELOAD_NEW"
    by simp
  from A cap async filled slot have p4:
    "\<exists>c' evs. Channel_RefreshHandshakerFactory example_env example_connector_reload_async
               = Returned (GRPC_SECURITY_OK, c') evs \<and>
             m_client_handshaker_factory c' = Some 7 \<and> rebuilds evs = 0 \<and> releases evs = 0"
    by metis
  from A scap async sfilled sslot have p5:
    "\<exists>s' evs. Server_RefreshHandshakerFactory example_env example_server_reload_async
               = Returned (GRPC_SECURITY_OK, s') evs \<and>
             m_server_handshaker_factory s' = Some 8 \<and> rebuilds evs = 0 \<and> releases evs = 0"
    by metis
  from p1 p2 p3 p4 p5 show ?thesis
    by blast
qed

end
